theory Spec2Isabelle
  imports Main
begin

section \<open>The input widgets of the main window\<close>

text \<open>
  The form holds five sliders (sleep, speech, activity, cheer, confidence) and one
  summary control. A Qt range widget keeps its value inside \<open>[minimum, maximum]\<close>:
  \<open>setValue\<close> clamps, and \<open>setRange\<close> re-clamps the current value. The widgets
  are created by the generated form class, so their initial values and the range of the
  summary control are not fixed here: they are whatever the record holds.
\<close>

record widget =
  wvalue :: int
  minimum :: int
  maximum :: int
  enabled :: bool

definition setValue :: "widget \<Rightarrow> int \<Rightarrow> widget" where
  "setValue wd v = wd\<lparr>wvalue := max (minimum wd) (min (maximum wd) v)\<rparr>"

definition setRange :: "int \<Rightarrow> int \<Rightarrow> widget \<Rightarrow> widget" where
  "setRange lo hi wd =
     (let wd' = wd\<lparr>minimum := lo, maximum := max lo hi\<rparr>
      in setValue wd' (wvalue wd'))"

definition setEnabled :: "bool \<Rightarrow> widget \<Rightarrow> widget" where
  "setEnabled b wd = wd\<lparr>enabled := b\<rparr>"

datatype slider = Sleep | Speech | Activity | Cheer | Confidence

record ui =
  altmans_sleep :: widget
  altmans_speech :: widget
  altmans_activity :: widget
  altmans_cheer :: widget
  altmans_confidence :: widget
  altmans_summary :: widget
  connected :: "slider set"

text \<open>
  \<open>connected\<close> holds the sliders whose \<open>valueChanged\<close> signal is wired to
  \<open>update_altmans_summary\<close>.
\<close>

definition sliders :: "'a ui_scheme \<Rightarrow> widget list" where
  "sliders u = [altmans_sleep u, altmans_speech u, altmans_activity u,
                altmans_cheer u, altmans_confidence u]"

text \<open>
  \<open>update_altmans_summary\<close>: the list comprehension keeps the values of the sliders
  whose value is positive, \<open>sum\<close> adds them, and the result is written to the summary
  control. Nothing in the body raises, so the handler of the \<open>try\<close> never runs.
\<close>

definition sumabitch :: "'a ui_scheme \<Rightarrow> int" where
  "sumabitch u = sum_list (map wvalue (filter (\<lambda>slider. wvalue slider > 0) (sliders u)))"

definition update_altmans_summary :: "'a ui_scheme \<Rightarrow> 'a ui_scheme" where
  "update_altmans_summary u =
     u\<lparr>altmans_summary := setValue (altmans_summary u) (sumabitch u)\<rparr>"

text \<open>
  A slider emits \<open>valueChanged\<close> when a call changes its value, and the signal runs the
  slot only if it has been connected.
\<close>

fun slider_of :: "slider \<Rightarrow> 'a ui_scheme \<Rightarrow> widget" where
  "slider_of Sleep u = altmans_sleep u"
| "slider_of Speech u = altmans_speech u"
| "slider_of Activity u = altmans_activity u"
| "slider_of Cheer u = altmans_cheer u"
| "slider_of Confidence u = altmans_confidence u"

fun put_slider :: "slider \<Rightarrow> widget \<Rightarrow> 'a ui_scheme \<Rightarrow> 'a ui_scheme" where
  "put_slider Sleep wd u = u\<lparr>altmans_sleep := wd\<rparr>"
| "put_slider Speech wd u = u\<lparr>altmans_speech := wd\<rparr>"
| "put_slider Activity wd u = u\<lparr>altmans_activity := wd\<rparr>"
| "put_slider Cheer wd u = u\<lparr>altmans_cheer := wd\<rparr>"
| "put_slider Confidence wd u = u\<lparr>altmans_confidence := wd\<rparr>"

definition change_slider :: "slider \<Rightarrow> widget \<Rightarrow> 'a ui_scheme \<Rightarrow> 'a ui_scheme" where
  "change_slider s wd u =
     (let u' = put_slider s wd u
      in if wvalue wd \<noteq> wvalue (slider_of s u) \<and> s \<in> connected u
         then update_altmans_summary u' else u')"

definition slider_setValue :: "slider \<Rightarrow> int \<Rightarrow> 'a ui_scheme \<Rightarrow> 'a ui_scheme" where
  "slider_setValue s v u = change_slider s (setValue (slider_of s u) v) u"

definition slider_setRange :: "slider \<Rightarrow> int \<Rightarrow> int \<Rightarrow> 'a ui_scheme \<Rightarrow> 'a ui_scheme" where
  "slider_setRange s lo hi u = change_slider s (setRange lo hi (slider_of s u)) u"

text \<open>
  The widget part of \<open>altman_table_commit\<close>, which runs after the \<open>try\<close> that wires
  the commit action: the summary control is disabled, every slider gets the range 0 to 5,
  then every slider's \<open>valueChanged\<close> is connected to \<open>update_altmans_summary\<close>.
\<close>

definition altman_table_commit :: "'a ui_scheme \<Rightarrow> 'a ui_scheme" where
  "altman_table_commit u =
     (let u1 = u\<lparr>altmans_summary := setEnabled False (altmans_summary u)\<rparr>;
          u2 = fold (\<lambda>s. slider_setRange s 0 5) [Sleep, Speech, Activity, Cheer, Confidence] u1
      in u2\<lparr>connected := connected u2 \<union> {Sleep, Speech, Activity, Cheer, Confidence}\<rparr>)"

text \<open>The contribution of one scale value to the summary, as the specification words it.\<close>

definition positive_part :: "int \<Rightarrow> int" where
  "positive_part v = (if v > 0 then v else 0)"

definition in_scale :: "int \<Rightarrow> bool" where
  "in_scale v = (0 \<le> v \<and> v \<le> 5)"

section \<open>The SQL statements and the engine's reading of them\<close>

text \<open>
  The two statements of \<open>database_manager.py\<close> are kept as the text the source
  holds. The engine's front end is modelled for the two statement forms the program
  issues: a tokenizer, and a parser for \<open>INSERT INTO t(c, ...) VALUES (?, ...)\<close> and
  \<open>CREATE TABLE IF NOT EXISTS t (c type, ...)\<close>.
\<close>

datatype token = Ident string | LParen | RParen | Comma | QMark | Other char

definition is_ident_char :: "char \<Rightarrow> bool" where
  "is_ident_char c =
     (let n = (of_char c :: nat)
      in (48 \<le> n \<and> n \<le> 57) \<or> (65 \<le> n \<and> n \<le> 90) \<or> n = 95 \<or> (97 \<le> n \<and> n \<le> 122))"

definition is_space :: "char \<Rightarrow> bool" where
  "is_space c = (c = CHR '' '' \<or> c = CHR 0x0A \<or> c = CHR 0x09 \<or> c = CHR 0x0D)"

definition punct :: "char \<Rightarrow> token" where
  "punct c = (if c = CHR ''('' then LParen else if c = CHR '')'' then RParen
              else if c = CHR '','' then Comma else if c = CHR ''?'' then QMark else Other c)"

definition flush :: "string \<Rightarrow> token list" where
  "flush acc = (if acc = [] then [] else [Ident acc])"

fun tokenize :: "string \<Rightarrow> string \<Rightarrow> token list" where
  "tokenize acc [] = flush acc"
| "tokenize acc (c # cs) =
     (if is_ident_char c then tokenize (acc @ [c]) cs
      else flush acc @ (if is_space c then [] else [punct c]) @ tokenize [] cs)"

fun split_commas :: "token list \<Rightarrow> token list \<Rightarrow> token list list" where
  "split_commas cur [] = [cur]"
| "split_commas cur (t # ts) =
     (if t = Comma then cur # split_commas [] ts else split_commas (cur @ [t]) ts)"

datatype coltype = INTEGER | TEXT

record column =
  cname :: string
  ctype :: coltype
  autoincrement :: bool

datatype statement =
  CreateTableIfNotExists string "column list"
| InsertInto string "string list" nat

fun ident_of :: "token list \<Rightarrow> string option" where
  "ident_of [Ident x] = Some x"
| "ident_of _ = None"

fun column_of :: "token list \<Rightarrow> column option" where
  "column_of [Ident n, Ident ty] =
     (if ty = ''INTEGER'' then Some \<lparr>cname = n, ctype = INTEGER, autoincrement = False\<rparr>
      else if ty = ''TEXT'' then Some \<lparr>cname = n, ctype = TEXT, autoincrement = False\<rparr>
      else None)"
| "column_of [Ident n, Ident ty, Ident p, Ident k, Ident a] =
     (if ty = ''INTEGER'' \<and> p = ''PRIMARY'' \<and> k = ''KEY'' \<and> a = ''AUTOINCREMENT''
      then Some \<lparr>cname = n, ctype = INTEGER, autoincrement = True\<rparr> else None)"
| "column_of _ = None"

definition all_some :: "'a option list \<Rightarrow> 'a list option" where
  "all_some xs = (if None \<in> set xs then None else Some (map the xs))"

definition parse_insert :: "token list \<Rightarrow> statement option" where
  "parse_insert ts =
     (case ts of
        Ident i # Ident n # Ident t # LParen # rest \<Rightarrow>
          if i = ''INSERT'' \<and> n = ''INTO'' then
            (case dropWhile (\<lambda>x. x \<noteq> RParen) rest of
               RParen # Ident v # LParen # rest' \<Rightarrow>
                 if v = ''VALUES'' \<and> dropWhile (\<lambda>x. x \<noteq> RParen) rest' = [RParen] then
                   (let vals = split_commas [] (takeWhile (\<lambda>x. x \<noteq> RParen) rest')
                    in case all_some (map ident_of
                              (split_commas [] (takeWhile (\<lambda>x. x \<noteq> RParen) rest))) of
                         Some cols \<Rightarrow>
                           if list_all (\<lambda>e. e = [QMark]) vals \<and> length vals = length cols
                           then Some (InsertInto t cols (length vals)) else None
                       | None \<Rightarrow> None)
                 else None
             | _ \<Rightarrow> None)
          else None
      | _ \<Rightarrow> None)"

definition parse_create :: "token list \<Rightarrow> statement option" where
  "parse_create ts =
     (case ts of
        Ident c # Ident tb # Ident i # Ident n # Ident e # Ident t # LParen # rest \<Rightarrow>
          if c = ''CREATE'' \<and> tb = ''TABLE'' \<and> i = ''IF'' \<and> n = ''NOT'' \<and> e = ''EXISTS''
             \<and> dropWhile (\<lambda>x. x \<noteq> RParen) rest = [RParen] then
            (case all_some (map column_of
                     (split_commas [] (takeWhile (\<lambda>x. x \<noteq> RParen) rest))) of
               Some cols \<Rightarrow> Some (CreateTableIfNotExists t cols)
             | None \<Rightarrow> None)
          else None
      | _ \<Rightarrow> None)"

definition parse_sql :: "string \<Rightarrow> statement option" where
  "parse_sql sql =
     (let ts = tokenize [] sql
      in case parse_insert ts of Some st \<Rightarrow> Some st | None \<Rightarrow> parse_create ts)"

definition nl :: string where
  "nl = [CHR 0x0A]"

definition sql_create :: string where
  "sql_create =
     '''' @ nl @
     ''                        CREATE TABLE IF NOT EXISTS altman_table ('' @ nl @
     ''                        id INTEGER PRIMARY KEY AUTOINCREMENT,'' @ nl @
     ''                         altman_date TEXT,'' @ nl @
     ''                         altman_time TEXT,'' @ nl @
     ''                         altmans_sleep INTEGER,'' @ nl @
     ''                         altmans_speech INTEGER,'' @ nl @
     ''                         altmans_activity INTEGER,'' @ nl @
     ''                         altmans_cheer INTEGER,'' @ nl @
     ''                         altmans_confidence INTEGER,'' @ nl @
     ''                         altmans_summary INTEGER'' @ nl @
     ''                        )''"

definition sql_insert :: string where
  "sql_insert =
     ''INSERT INTO altman_table('' @ nl @
     ''        altman_date,'' @ nl @
     ''        altman_time,'' @ nl @
     ''        altmans_sleep,'' @ nl @
     ''        altmans_speech,'' @ nl @
     ''        altmans_activity,'' @ nl @
     ''        altmans_cheer,'' @ nl @
     ''        altmans_confidence,'' @ nl @
     ''        altmans_summary'' @ nl @
     ''        ) VALUES (?, ?, ?, ?, ?, ?, ?, ?)''"


section \<open>Tables, files and the default connection\<close>

text \<open>
  A bound value is a string or an integer (\<open>List[Union[str, int]]\<close>). The annotations
  of \<open>insert_into_altman_table\<close> give strings to the two TEXT columns and integers to
  the six INTEGER columns. A string is kept as TEXT. An INTEGER of the engine is a signed
  64-bit number, so only a Python integer in that range is kept as it is. A larger one
  that still fits 64 bits unsigned reaches the engine as its decimal text and is kept as
  the nearest REAL (\<open>2^63\<close> becomes 9.223372036854776e+18); \<open>SqlReal i\<close> stands for the
  REAL made from \<open>i\<close>. An integer beyond that is handed over in a form the engine
  cannot read as a number; \<open>SqlInexact i\<close> stands for what is kept then. In neither
  case is an error raised or logged.
\<close>

datatype variant = VStr string | VInt int

datatype sql_value = SqlNull | SqlInt int | SqlText string | SqlReal int | SqlInexact int

definition int64 :: "int \<Rightarrow> bool" where
  "int64 i = (- (2 ^ 63) \<le> i \<and> i < 2 ^ 63)"

definition uint64 :: "int \<Rightarrow> bool" where
  "uint64 i = (0 \<le> i \<and> i < 2 ^ 64)"

fun to_sql :: "variant \<Rightarrow> sql_value" where
  "to_sql (VStr s) = SqlText s"
| "to_sql (VInt i) =
     (if int64 i then SqlInt i else if uint64 i then SqlReal i else SqlInexact i)"

type_synonym row = "(string \<times> sql_value) list"

record table =
  columns :: "column list"
  rows :: "row list"
  last_rowid :: int

type_synonym database = "string \<rightharpoonup> table"

text \<open>
  A file holds a database, or bytes that are not one. \<open>writable\<close> says whether a path
  can be created or written; it stands for permissions, missing directories and the like.
  Qt keeps the connections of a process by name; the program only ever uses the default
  one. The log is the list of the calls made on \<open>logger\<close>, each with its level and the
  constant part of its message (and the engine's error text where the source appends it).
  Two calls of the source, in \<open>initialize_database\<close> and in \<open>setup_altman_table\<close>,
  pass a further positional argument for which the message has no placeholder; what a
  handler writes for such a call is decided by the logger's own module and is left open.
\<close>

datatype file_content = SqliteFile database | OtherFile "nat list"

record connection =
  databaseName :: string
  isOpen :: bool

datatype level = INFO | ERROR

type_synonym log_entry = "level \<times> string"

record world =
  files :: "string \<rightharpoonup> file_content"
  writable :: "string \<Rightarrow> bool"
  default_connection :: "connection option"
  logged :: "log_entry list"

datatype exn = OSError | ValueError | AttributeError

definition logger_info :: "string \<Rightarrow> world \<Rightarrow> world" where
  "logger_info msg w = w\<lparr>logged := logged w @ [(INFO, msg)]\<rparr>"

definition logger_error :: "string \<Rightarrow> world \<Rightarrow> world" where
  "logger_error msg w = w\<lparr>logged := logged w @ [(ERROR, msg)]\<rparr>"

definition path_exists :: "world \<Rightarrow> string \<Rightarrow> bool" where
  "path_exists w p = (files w p \<noteq> None)"

text \<open>\<open>shutil.copy\<close> raises when the source is missing or the target cannot be written.\<close>

definition shutil_copy :: "string \<Rightarrow> string \<Rightarrow> world \<Rightarrow> exn option \<times> world" where
  "shutil_copy src dst w =
     (case files w src of
        None \<Rightarrow> (Some OSError, w)
      | Some f \<Rightarrow>
          if writable w dst then (None, w\<lparr>files := (files w)(dst \<mapsto> f)\<rparr>)
          else (Some OSError, w))"

subsection \<open>QSqlDatabase\<close>

definition addDatabase :: "world \<Rightarrow> world" where
  "addDatabase w = w\<lparr>default_connection := Some \<lparr>databaseName = [], isOpen = False\<rparr>\<rparr>"

definition setDatabaseName :: "string \<Rightarrow> world \<Rightarrow> world" where
  "setDatabaseName name w =
     w\<lparr>default_connection := map_option (\<lambda>c. c\<lparr>databaseName := name\<rparr>) (default_connection w)\<rparr>"

text \<open>
  Opening creates an empty database file when none exists and the path can be written;
  an existing file is opened as it is. Otherwise the open fails and returns False.
\<close>

definition db_open :: "world \<Rightarrow> bool \<times> world" where
  "db_open w =
     (case default_connection w of
        None \<Rightarrow> (False, w)
      | Some c \<Rightarrow>
          (case files w (databaseName c) of
             Some f \<Rightarrow> (True, w\<lparr>default_connection := Some (c\<lparr>isOpen := True\<rparr>)\<rparr>)
           | None \<Rightarrow>
               if writable w (databaseName c)
               then (True, w\<lparr>files := (files w)(databaseName c \<mapsto> SqliteFile Map.empty),
                              default_connection := Some (c\<lparr>isOpen := True\<rparr>)\<rparr>)
               else (False, w)))"

definition db_isOpen :: "world \<Rightarrow> bool" where
  "db_isOpen w = (case default_connection w of None \<Rightarrow> False | Some c \<Rightarrow> isOpen c)"

definition db_close :: "world \<Rightarrow> world" where
  "db_close w =
     w\<lparr>default_connection := map_option (\<lambda>c. c\<lparr>isOpen := False\<rparr>) (default_connection w)\<rparr>"

text \<open>The database behind the default connection, or the engine's error text.\<close>

definition connected_database :: "world \<Rightarrow> string + (string \<times> database)" where
  "connected_database w =
     (case default_connection w of
        None \<Rightarrow> Inl ''Driver not loaded''
      | Some c \<Rightarrow>
          if \<not> isOpen c then Inl ''database not open''
          else (case files w (databaseName c) of
                  None \<Rightarrow> Inl ''unable to open database file''
                | Some (OtherFile bs) \<Rightarrow> Inl ''file is not a database''
                | Some (SqliteFile d) \<Rightarrow> Inr (databaseName c, d)))"

subsection \<open>QSqlQuery\<close>

record query =
  prepared :: "statement option"
  boundValues :: "variant list"
  lastError :: string

definition new_query :: query where
  "new_query = \<lparr>prepared = None, boundValues = [], lastError = []\<rparr>"

text \<open>
  Compiling a statement checks it against the schema: an INSERT needs its table and
  every column it names.
\<close>

definition compile :: "world \<Rightarrow> string \<Rightarrow> string + statement" where
  "compile w sql =
     (case connected_database w of
        Inl err \<Rightarrow> Inl err
      | Inr (p, d) \<Rightarrow>
          (case parse_sql sql of
             None \<Rightarrow> Inl ''syntax error''
           | Some (CreateTableIfNotExists t cols) \<Rightarrow> Inr (CreateTableIfNotExists t cols)
           | Some (InsertInto t cols n) \<Rightarrow>
               (case d t of
                  None \<Rightarrow> Inl (''no such table: '' @ t)
                | Some tb \<Rightarrow>
                    if list_all (\<lambda>c. c \<in> set (map cname (columns tb))) cols
                    then Inr (InsertInto t cols n)
                    else Inl (''table '' @ t @ '' has no such column''))))"

definition query_prepare :: "world \<Rightarrow> query \<Rightarrow> string \<Rightarrow> bool \<times> query" where
  "query_prepare w q sql =
     (case compile w sql of
        Inl err \<Rightarrow> (False, \<lparr>prepared = None, boundValues = [], lastError = err\<rparr>)
      | Inr st \<Rightarrow> (True, \<lparr>prepared = Some st, boundValues = [], lastError = []\<rparr>))"

definition query_addBindValue :: "query \<Rightarrow> variant \<Rightarrow> query" where
  "query_addBindValue q v = q\<lparr>boundValues := boundValues q @ [v]\<rparr>"

text \<open>
  The row an INSERT adds: a column the statement names takes its bound value, the
  AUTOINCREMENT column otherwise takes a rowid larger than every rowid the table has
  held, and any other column is NULL.
\<close>

definition row_ids :: "table \<Rightarrow> int list" where
  "row_ids tb =
     concat (map (\<lambda>r. concat (map (\<lambda>c. case map_of r (cname c) of
                                           Some (SqlInt i) \<Rightarrow> [i] | _ \<Rightarrow> [])
                                  (filter autoincrement (columns tb))))
                 (rows tb))"

definition next_rowid :: "table \<Rightarrow> int" where
  "next_rowid tb = fold max (row_ids tb) (last_rowid tb) + 1"

definition new_cell :: "table \<Rightarrow> (string \<times> sql_value) list \<Rightarrow> column \<Rightarrow> sql_value" where
  "new_cell tb named c =
     (case map_of named (cname c) of
        Some v \<Rightarrow> v
      | None \<Rightarrow> if autoincrement c then SqlInt (next_rowid tb) else SqlNull)"

definition new_row :: "table \<Rightarrow> string list \<Rightarrow> variant list \<Rightarrow> row" where
  "new_row tb cols vals =
     map (\<lambda>c. (cname c, new_cell tb (zip cols (map to_sql vals)) c)) (columns tb)"

definition insert_row :: "table \<Rightarrow> string list \<Rightarrow> variant list \<Rightarrow> table" where
  "insert_row tb cols vals =
     tb\<lparr>rows := rows tb @ [new_row tb cols vals],
        last_rowid := (if list_ex autoincrement (columns tb)
                       then next_rowid tb else last_rowid tb)\<rparr>"

definition run_statement :: "world \<Rightarrow> statement \<Rightarrow> variant list \<Rightarrow> string + world" where
  "run_statement w st vals =
     (case connected_database w of
        Inl err \<Rightarrow> Inl err
      | Inr (p, d) \<Rightarrow>
          (case st of
             CreateTableIfNotExists t cols \<Rightarrow>
               if vals \<noteq> [] then Inl ''Parameter count mismatch''
               else if d t \<noteq> None then Inr w
               else if \<not> writable w p then Inl ''attempt to write a readonly database''
               else Inr (w\<lparr>files := (files w)(p \<mapsto> SqliteFile
                           (d(t \<mapsto> \<lparr>columns = cols, rows = [], last_rowid = 0\<rparr>)))\<rparr>)
           | InsertInto t cols n \<Rightarrow>
               if n \<noteq> length vals then Inl ''Parameter count mismatch''
               else (case d t of
                       None \<Rightarrow> Inl (''no such table: '' @ t)
                     | Some tb \<Rightarrow>
                         if \<not> writable w p then Inl ''attempt to write a readonly database''
                         else Inr (w\<lparr>files := (files w)(p \<mapsto> SqliteFile
                                     (d(t \<mapsto> insert_row tb cols vals)))\<rparr>))))"

text \<open>\<open>exec()\<close> of a prepared query, and \<open>exec(sql)\<close> which prepares and runs at once.\<close>

definition query_exec :: "world \<Rightarrow> query \<Rightarrow> bool \<times> world \<times> query" where
  "query_exec w q =
     (case prepared q of
        None \<Rightarrow> (False, w, q)
      | Some st \<Rightarrow>
          (case run_statement w st (boundValues q) of
             Inl err \<Rightarrow> (False, w, q\<lparr>lastError := err\<rparr>)
           | Inr w' \<Rightarrow> (True, w', q\<lparr>lastError := []\<rparr>)))"

definition query_exec_sql :: "world \<Rightarrow> query \<Rightarrow> string \<Rightarrow> bool \<times> world \<times> query" where
  "query_exec_sql w q sql =
     (case query_prepare w q sql of
        (False, q') \<Rightarrow> (False, w, q')
      | (True, q') \<Rightarrow> query_exec w q')"

text \<open>A full-table read (\<open>SELECT * FROM t\<close>) through the default connection.\<close>

definition select_all :: "world \<Rightarrow> string \<Rightarrow> row list option" where
  "select_all w t =
     (case connected_database w of
        Inl err \<Rightarrow> None
      | Inr (p, d) \<Rightarrow> map_option rows (d t))"

definition row_count :: "world \<Rightarrow> string \<Rightarrow> nat" where
  "row_count w t = (case select_all w t of None \<Rightarrow> 0 | Some rs \<Rightarrow> length rs)"

section \<open>The persistence component (\<open>database_manager.py\<close>)\<close>

text \<open>
  Every operation returns the exception that reaches its caller, if any, with the state
  it leaves behind. \<open>db_path\<close> (the template beside the application) and
  \<open>target_db_path\<close> (the store in the user's directory) are built from a file name
  that lives in the configuration module, so both are arguments here.
\<close>

definition initialize_database_try :: "string \<Rightarrow> string \<Rightarrow> world \<Rightarrow> exn option \<times> world" where
  "initialize_database_try db_path target_db_path w =
     (if \<not> path_exists w target_db_path then
        if path_exists w db_path then shutil_copy db_path target_db_path w
        else
          (let w1 = setDatabaseName target_db_path (addDatabase w);
               (opened, w2) = db_open w1;
               w3 = (if \<not> opened then logger_error ''Error: Unable to create database'' w2
                     else w2)
           in (None, db_close w3))
      else (None, w))"

definition initialize_database :: "string \<Rightarrow> string \<Rightarrow> world \<Rightarrow> exn option \<times> world" where
  "initialize_database db_path target_db_path w =
     (case initialize_database_try db_path target_db_path w of
        (Some e, w') \<Rightarrow> (None, logger_error ''Error: Unable to create database'' w')
      | (None, w') \<Rightarrow> (None, w'))"

text \<open>
  A \<open>DataManager\<close> holds \<open>db\<close>, a handle on the default connection, and \<open>query\<close>.
  \<open>db\<close> is optional in the record because \<open>close_database\<close> is a function of the
  module that takes any object as \<open>self\<close>: reading \<open>self.db\<close> on one without the
  attribute raises AttributeError.
\<close>

datatype qsqldatabase = DefaultConnection

record data_manager =
  db :: "qsqldatabase option"
  query :: query

definition setup_altman_table :: "world \<Rightarrow> data_manager \<Rightarrow> exn option \<times> world \<times> data_manager" where
  "setup_altman_table w self =
     (case query_exec_sql w (query self) sql_create of
        (ok, w', q') \<Rightarrow>
          (None,
           (if \<not> ok then logger_error ''Error creating table: altman_table'' w' else w'),
           self\<lparr>query := q'\<rparr>))"

definition setup_tables :: "world \<Rightarrow> data_manager \<Rightarrow> exn option \<times> world \<times> data_manager" where
  "setup_tables w self = setup_altman_table w self"

definition DataManager_init_try :: "string \<Rightarrow> world \<Rightarrow> exn option \<times> world \<times> data_manager" where
  "DataManager_init_try db_name w =
     (let w1 = setDatabaseName db_name (addDatabase w);
          (opened, w2) = db_open w1;
          w3 = (if \<not> opened then logger_error ''Error: Unable to open database'' w2 else w2);
          w4 = logger_info ''DB INITIALIZING'' w3
      in setup_tables w4 \<lparr>db = Some DefaultConnection, query = new_query\<rparr>)"

definition DataManager_init :: "string \<Rightarrow> world \<Rightarrow> exn option \<times> world \<times> data_manager" where
  "DataManager_init db_name w =
     (case DataManager_init_try db_name w of
        (Some e, w', self) \<Rightarrow> (None, logger_error ''Error: Unable to open database '' w', self)
      | (None, w', self) \<Rightarrow> (None, w', self))"

text \<open>
  The \<open>try\<close> block of \<open>insert_into_altman_table\<close>, as a function of the local list
  \<open>bind_values\<close>: prepare, bind every value, compare the number of \<open>?\<close> in the
  text with the number of values, execute.
\<close>

definition insert_try ::
  "world \<Rightarrow> data_manager \<Rightarrow> variant list \<Rightarrow> exn option \<times> world \<times> data_manager" where
  "insert_try w self bind_values =
     (let q1 = snd (query_prepare w (query self) sql_insert);
          q2 = foldl query_addBindValue q1 bind_values
      in if count_list sql_insert (CHR ''?'') \<noteq> length bind_values
         then (Some ValueError, w, self\<lparr>query := q2\<rparr>)
         else (case query_exec w q2 of
                 (ok, w', q3) \<Rightarrow>
                   (None,
                    (if \<not> ok
                     then logger_error (''Error inserting data: altman_table - '' @ lastError q3) w'
                     else w'),
                    self\<lparr>query := q3\<rparr>)))"

text \<open>
  The \<open>try\<close> block with its two handlers, still as a function of \<open>bind_values\<close>.
  \<open>insert_into_altman_table\<close> is this function at the list of its eight parameters.
\<close>

definition insert_with ::
  "world \<Rightarrow> data_manager \<Rightarrow> variant list \<Rightarrow> exn option \<times> world \<times> data_manager" where
  "insert_with w self bind_values =
     (case insert_try w self bind_values of
        (Some ValueError, w', self') \<Rightarrow>
          (None, logger_error ''ValueError altman_table: Mismatch: altman_table'' w', self')
      | (Some e, w', self') \<Rightarrow>
          (None, logger_error ''Error during data insertion: altman_table'' w', self')
      | (None, w', self') \<Rightarrow> (None, w', self'))"

definition insert_into_altman_table ::
  "world \<Rightarrow> data_manager \<Rightarrow> string \<Rightarrow> string \<Rightarrow> int \<Rightarrow> int \<Rightarrow> int \<Rightarrow> int \<Rightarrow> int \<Rightarrow> int
     \<Rightarrow> exn option \<times> world \<times> data_manager" where
  "insert_into_altman_table w self date time sleep speech activity cheer confidence summary =
     insert_with w self
       [VStr date, VStr time, VInt sleep, VInt speech, VInt activity, VInt cheer,
        VInt confidence, VInt summary]"

definition close_database_try :: "world \<Rightarrow> data_manager \<Rightarrow> exn option \<times> world" where
  "close_database_try w self =
     (let w1 = logger_info ''if database is open'' w
      in case db self of
           None \<Rightarrow> (Some AttributeError, w1)
         | Some h \<Rightarrow>
             if db_isOpen w1
             then (None, db_close (logger_info ''the database is closed successfully'' w1))
             else (None, w1))"

definition close_database :: "world \<Rightarrow> data_manager \<Rightarrow> exn option \<times> world" where
  "close_database w self =
     (case close_database_try w self of
        (Some e, w') \<Rightarrow> (None, logger_error ''Error closing database: '' w')
      | (None, w') \<Rightarrow> (None, w'))"

section \<open>The main window (\<open>main_window.py\<close>)\<close>

text \<open>
  \<open>MainWindow\<close> inherits the widgets of the form and adds the persistence component,
  the stored settings and its own geometry. Of \<open>__init__\<close> the model keeps the steps
  that touch the modelled state: the construction of the \<open>DataManager\<close>,
  \<open>commits\<close> (which runs \<open>altman_table_commit\<close>) and the final
  \<open>update_altmans_summary\<close>.
\<close>

datatype setting = SInt int | SBytes "nat list"

record main_window = ui +
  db_manager :: data_manager
  settings :: "string \<rightharpoonup> setting"
  geometry :: "nat list"
  windowState :: "nat list"

definition MainWindow_init ::
  "string \<Rightarrow> world \<Rightarrow> ui \<Rightarrow> (string \<rightharpoonup> setting) \<Rightarrow> nat list \<Rightarrow> nat list
     \<Rightarrow> exn option \<times> world \<times> main_window" where
  "MainWindow_init target_db_path w form stored geo st =
     (case DataManager_init target_db_path w of
        (Some e, w', dm) \<Rightarrow>
          (Some e, w', ui.extend form
             \<lparr>db_manager = dm, settings = stored, geometry = geo, windowState = st\<rparr>)
      | (None, w', dm) \<Rightarrow>
          (None, w',
           update_altmans_summary (altman_table_commit (ui.extend form
             \<lparr>db_manager = dm, settings = stored, geometry = geo, windowState = st\<rparr>))))"

definition save_state :: "main_window \<Rightarrow> main_window" where
  "save_state mw =
     mw\<lparr>settings := (settings mw)(''geometry'' \<mapsto> SBytes (geometry mw),
                                     ''windowState'' \<mapsto> SBytes (windowState mw))\<rparr>"

definition closeEvent :: "world \<Rightarrow> main_window \<Rightarrow> exn option \<times> world \<times> main_window" where
  "closeEvent w mw = (None, w, save_state mw)"

definition on_page_changed :: "int \<Rightarrow> main_window \<Rightarrow> main_window" where
  "on_page_changed index mw = mw\<lparr>settings := (settings mw)(''lastPageIndex'' \<mapsto> SInt index)\<rparr>"

text \<open>
  What can happen to a constructed window. The user moves a slider, tries to edit the
  summary control (a disabled widget takes no input), changes the page or closes the
  window. The commit action runs \<open>add_altmans_data\<close>, which is not part of these
  sources, with \<open>insert_into_altman_table\<close> as its callback; the event carries the
  eight values the callback is called with.
\<close>

datatype event =
  SliderMoved slider int
| SummaryEdited int
| CommitTriggered string string int int int int int int
| PageChanged int
| CloseEvent

fun handle :: "world \<Rightarrow> main_window \<Rightarrow> event \<Rightarrow> exn option \<times> world \<times> main_window" where
  "handle w mw (SliderMoved s v) = (None, w, slider_setValue s v mw)"
| "handle w mw (SummaryEdited v) =
     (None, w,
      if enabled (altmans_summary mw)
      then mw\<lparr>altmans_summary := setValue (altmans_summary mw) v\<rparr> else mw)"
| "handle w mw (CommitTriggered date time sleep speech activity cheer confidence summary) =
     (case insert_into_altman_table w (db_manager mw) date time sleep speech activity cheer
             confidence summary of
        (r, w', dm) \<Rightarrow> (r, w', mw\<lparr>db_manager := dm\<rparr>))"
| "handle w mw (PageChanged index) = (None, w, on_page_changed index mw)"
| "handle w mw CloseEvent = closeEvent w mw"

text \<open>Events are handled one after the other; an exception that escapes ends the run.\<close>

fun run :: "world \<Rightarrow> main_window \<Rightarrow> event list \<Rightarrow> exn option \<times> world \<times> main_window" where
  "run w mw [] = (None, w, mw)"
| "run w mw (e # es) =
     (case handle w mw e of
        (Some x, w', mw') \<Rightarrow> (Some x, w', mw')
      | (None, w', mw') \<Rightarrow> run w' mw' es)"

text \<open>The names a \<open>DataManager\<close> instance answers to, and the functions of the module.\<close>

definition DataManager_attributes :: "string list" where
  "DataManager_attributes =
     [''__init__'', ''setup_tables'', ''setup_altman_table'', ''insert_into_altman_table'',
      ''db'', ''query'']"

definition module_functions :: "string list" where
  "module_functions = [''initialize_database'', ''close_database'']"

section \<open>What the claims speak of, and example states\<close>

text \<open>
  The columns the INSERT names, the table a store file holds under a name, and the
  condition under which the engine executes the INSERT: the default connection is open
  on a database file that can be written and that holds \<open>altman_table\<close> with the
  eight named columns.
\<close>

definition insert_columns :: "string list" where
  "insert_columns =
     [''altman_date'', ''altman_time'', ''altmans_sleep'', ''altmans_speech'',
      ''altmans_activity'', ''altmans_cheer'', ''altmans_confidence'', ''altmans_summary'']"

definition store_table :: "world \<Rightarrow> string \<Rightarrow> string \<Rightarrow> table option" where
  "store_table w p t =
     (case files w p of Some (SqliteFile d) \<Rightarrow> d t | _ \<Rightarrow> None)"

definition insert_accepted :: "world \<Rightarrow> bool" where
  "insert_accepted w =
     (case connected_database w of
        Inl err \<Rightarrow> False
      | Inr (p, d) \<Rightarrow>
          (case d ''altman_table'' of
             None \<Rightarrow> False
           | Some tb \<Rightarrow>
               list_all (\<lambda>c. c \<in> set (map cname (columns tb))) insert_columns
               \<and> writable w p))"

text \<open>
  The engine executes the CREATE when the connection is open on a database file that
  already holds the table or can be written.
\<close>

definition create_accepted :: "world \<Rightarrow> bool" where
  "create_accepted w =
     (case connected_database w of
        Inl err \<Rightarrow> False
      | Inr (p, d) \<Rightarrow> d ''altman_table'' \<noteq> None \<or> writable w p)"

definition cell :: "row \<Rightarrow> string \<Rightarrow> sql_value option" where
  "cell r c = map_of r c"

text \<open>What a full-table read shows in one column, row by row.\<close>

definition column_values :: "world \<Rightarrow> string \<Rightarrow> string \<Rightarrow> sql_value option list option" where
  "column_values w t c = map_option (map (\<lambda>r. cell r c)) (select_all w t)"

text \<open>
  Example states: a machine with no files where every path can be written, the same
  machine where nothing can be written, and one with a template beside the application.
\<close>

definition app_db :: string where
  "app_db = ''/opt/altman/altman.db''"

definition home_db :: string where
  "home_db = ''/home/user/altman.db''"

definition fresh_world :: world where
  "fresh_world =
     \<lparr>files = Map.empty, writable = (\<lambda>p. True), default_connection = None, logged = []\<rparr>"

definition locked_world :: world where
  "locked_world =
     \<lparr>files = Map.empty, writable = (\<lambda>p. False), default_connection = None, logged = []\<rparr>"

definition template_world :: world where
  "template_world =
     \<lparr>files = [app_db \<mapsto> OtherFile [83, 81, 76]], writable = (\<lambda>p. True),
      default_connection = None, logged = []\<rparr>"

definition expected_columns :: "column list" where
  "expected_columns =
     [\<lparr>cname = ''id'', ctype = INTEGER, autoincrement = True\<rparr>,
      \<lparr>cname = ''altman_date'', ctype = TEXT, autoincrement = False\<rparr>,
      \<lparr>cname = ''altman_time'', ctype = TEXT, autoincrement = False\<rparr>,
      \<lparr>cname = ''altmans_sleep'', ctype = INTEGER, autoincrement = False\<rparr>,
      \<lparr>cname = ''altmans_speech'', ctype = INTEGER, autoincrement = False\<rparr>,
      \<lparr>cname = ''altmans_activity'', ctype = INTEGER, autoincrement = False\<rparr>,
      \<lparr>cname = ''altmans_cheer'', ctype = INTEGER, autoincrement = False\<rparr>,
      \<lparr>cname = ''altmans_confidence'', ctype = INTEGER, autoincrement = False\<rparr>,
      \<lparr>cname = ''altmans_summary'', ctype = INTEGER, autoincrement = False\<rparr>]"

definition empty_altman_table :: table where
  "empty_altman_table = \<lparr>columns = expected_columns, rows = [], last_rowid = 0\<rparr>"

text \<open>
  A store that holds the empty table, behind an open connection: once on a path that can
  be written, once read-only. \<open>a_manager\<close> is a \<open>DataManager\<close> as its constructor
  leaves it.
\<close>

definition ready_world :: world where
  "ready_world =
     \<lparr>files = [home_db \<mapsto> SqliteFile [''altman_table'' \<mapsto> empty_altman_table]],
      writable = (\<lambda>p. True),
      default_connection = Some \<lparr>databaseName = home_db, isOpen = True\<rparr>, logged = []\<rparr>"

definition readonly_world :: world where
  "readonly_world =
     \<lparr>files = [home_db \<mapsto> SqliteFile [''altman_table'' \<mapsto> empty_altman_table]],
      writable = (\<lambda>p. False),
      default_connection = Some \<lparr>databaseName = home_db, isOpen = True\<rparr>, logged = []\<rparr>"

definition a_manager :: data_manager where
  "a_manager = \<lparr>db = Some DefaultConnection, query = new_query\<rparr>"

text \<open>
  The state of the form the window keeps: every slider has the range 0 to 5 and a value
  inside it, the summary control is disabled, can show 0 to 25 and shows the sum, and
  every slider is connected.
\<close>

definition slider_ok :: "widget \<Rightarrow> bool" where
  "slider_ok wd = (minimum wd = 0 \<and> maximum wd = 5 \<and> in_scale (wvalue wd))"

definition all_sliders :: "slider list" where
  "all_sliders = [Sleep, Speech, Activity, Cheer, Confidence]"

definition form_ok :: "'a ui_scheme \<Rightarrow> bool" where
  "form_ok u =
     (slider_ok (altmans_sleep u) \<and> slider_ok (altmans_speech u)
      \<and> slider_ok (altmans_activity u) \<and> slider_ok (altmans_cheer u)
      \<and> slider_ok (altmans_confidence u)
      \<and> \<not> enabled (altmans_summary u)
      \<and> minimum (altmans_summary u) \<le> 0 \<and> 25 \<le> maximum (altmans_summary u)
      \<and> set all_sliders \<subseteq> connected u
      \<and> wvalue (altmans_summary u) = sumabitch u)"

text \<open>A form as a designer might leave it, with values outside the scale.\<close>

definition wild_form :: ui where
  "wild_form =
     \<lparr>altmans_sleep = \<lparr>wvalue = 50, minimum = 0, maximum = 99, enabled = True\<rparr>,
      altmans_speech = \<lparr>wvalue = - 3, minimum = - 10, maximum = 10, enabled = True\<rparr>,
      altmans_activity = \<lparr>wvalue = 3, minimum = 0, maximum = 99, enabled = True\<rparr>,
      altmans_cheer = \<lparr>wvalue = 0, minimum = 0, maximum = 99, enabled = True\<rparr>,
      altmans_confidence = \<lparr>wvalue = 2, minimum = 0, maximum = 99, enabled = True\<rparr>,
      altmans_summary = \<lparr>wvalue = 42, minimum = 0, maximum = 99, enabled = True\<rparr>,
      connected = {}\<rparr>"

definition a_session :: "event list" where
  "a_session =
     [SliderMoved Sleep 4, SummaryEdited 99, SliderMoved Cheer 7,
      CommitTriggered ''2024-05-01'' ''09:30'' 4 0 3 5 2 14, PageChanged 1, CloseEvent]"

text \<open>An object without a \<open>db\<close> attribute, as \<open>close_database\<close> may be handed.\<close>

definition bare_object :: data_manager where
  "bare_object = \<lparr>db = None, query = new_query\<rparr>"

definition slider_at :: "int \<Rightarrow> widget" where
  "slider_at v = \<lparr>wvalue = v, minimum = 0, maximum = 5, enabled = True\<rparr>"

definition example_form :: ui where
  "example_form =
     \<lparr>altmans_sleep = slider_at 5, altmans_speech = slider_at 0, altmans_activity = slider_at 3,
      altmans_cheer = slider_at 0, altmans_confidence = slider_at 2,
      altmans_summary = \<lparr>wvalue = 0, minimum = 0, maximum = 99, enabled = True\<rparr>,
      connected = {}\<rparr>"

definition zero_form :: ui where
  "zero_form =
     \<lparr>altmans_sleep = slider_at 0, altmans_speech = slider_at 0, altmans_activity = slider_at 0,
      altmans_cheer = slider_at 0, altmans_confidence = slider_at 0,
      altmans_summary = \<lparr>wvalue = 7, minimum = 0, maximum = 99, enabled = True\<rparr>,
      connected = {}\<rparr>"

section \<open>Facts about the engine and the insert path\<close>

lemma parse_sql_insert:
  "parse_sql sql_insert = Some (InsertInto ''altman_table'' insert_columns 8)"
  by code_simp

lemma count_placeholders: "count_list sql_insert (CHR ''?'') = 8"
  by (simp add: sql_insert_def nl_def)

lemma boundValues_foldl:
  "boundValues (foldl query_addBindValue q vs) = boundValues q @ vs"
  by (induction vs arbitrary: q) (simp_all add: query_addBindValue_def)

lemma prepared_foldl:
  "prepared (foldl query_addBindValue q vs) = prepared q"
  by (induction vs arbitrary: q) (simp_all add: query_addBindValue_def)

lemma lastError_foldl:
  "lastError (foldl query_addBindValue q vs) = lastError q"
  by (induction vs arbitrary: q) (simp_all add: query_addBindValue_def)

lemma insert_try_mismatch:
  "length vs \<noteq> 8 \<Longrightarrow>
   insert_try w self vs =
     (Some ValueError, w,
      self\<lparr>query := foldl query_addBindValue (snd (query_prepare w (query self) sql_insert)) vs\<rparr>)"
  by (simp add: insert_try_def count_placeholders Let_def)

lemma insert_accepted_cases:
  "insert_accepted w \<longleftrightarrow>
     (\<exists>p d tb. connected_database w = Inr (p, d) \<and> d ''altman_table'' = Some tb
        \<and> list_all (\<lambda>c. c \<in> set (map cname (columns tb))) insert_columns \<and> writable w p)"
  by (auto simp: insert_accepted_def split: sum.splits option.splits)

lemma insert_try_accepted:
  assumes "length vs = 8" "connected_database w = Inr (p, d)" "d ''altman_table'' = Some tb"
    "list_all (\<lambda>c. c \<in> set (map cname (columns tb))) insert_columns" "writable w p"
  shows "\<exists>q. insert_try w self vs =
     (None, w\<lparr>files := (files w)(p \<mapsto> SqliteFile
                 (d(''altman_table'' \<mapsto> insert_row tb insert_columns vs)))\<rparr>,
      self\<lparr>query := q\<rparr>)"
  using assms
  by (simp add: insert_try_def count_placeholders Let_def query_prepare_def compile_def
      parse_sql_insert query_exec_def prepared_foldl boundValues_foldl run_statement_def)
    blast

lemma insert_try_rejected:
  assumes "length vs = 8" "\<not> insert_accepted w"
  shows "\<exists>q err. insert_try w self vs =
     (None, logger_error (''Error inserting data: altman_table - '' @ err) w, self\<lparr>query := q\<rparr>)"
  using assms
  by (auto simp: insert_try_def count_placeholders Let_def query_prepare_def compile_def
      parse_sql_insert query_exec_def prepared_foldl boundValues_foldl run_statement_def
      insert_accepted_def split: sum.splits option.splits)


lemma parse_sql_create:
  "parse_sql sql_create = Some (CreateTableIfNotExists ''altman_table'' expected_columns)"
  by code_simp

lemma insert_with_accepted:
  assumes "length vs = 8" "insert_accepted w"
  shows "\<exists>p d tb q. connected_database w = Inr (p, d) \<and> d ''altman_table'' = Some tb
      \<and> list_all (\<lambda>c. c \<in> set (map cname (columns tb))) insert_columns
      \<and> insert_with w self vs =
          (None, w\<lparr>files := (files w)(p \<mapsto> SqliteFile
                      (d(''altman_table'' \<mapsto> insert_row tb insert_columns vs)))\<rparr>,
           self\<lparr>query := q\<rparr>)"
proof -
  from assms(2) obtain p d tb where h:
    "connected_database w = Inr (p, d)" "d ''altman_table'' = Some tb"
    "list_all (\<lambda>c. c \<in> set (map cname (columns tb))) insert_columns" "writable w p"
    unfolding insert_accepted_cases by blast
  from insert_try_accepted [OF assms(1) h, of self] obtain q where
    "insert_try w self vs =
       (None, w\<lparr>files := (files w)(p \<mapsto> SqliteFile
                   (d(''altman_table'' \<mapsto> insert_row tb insert_columns vs)))\<rparr>,
        self\<lparr>query := q\<rparr>)" by blast
  then have "insert_with w self vs =
       (None, w\<lparr>files := (files w)(p \<mapsto> SqliteFile
                   (d(''altman_table'' \<mapsto> insert_row tb insert_columns vs)))\<rparr>,
        self\<lparr>query := q\<rparr>)"
    by (simp add: insert_with_def)
  with h show ?thesis by blast
qed

lemma insert_with_rejected:
  assumes "length vs = 8" "\<not> insert_accepted w"
  shows "\<exists>q err. insert_with w self vs =
     (None, logger_error (''Error inserting data: altman_table - '' @ err) w, self\<lparr>query := q\<rparr>)"
proof -
  from insert_try_rejected [OF assms, of self] obtain q err where
    "insert_try w self vs =
       (None, logger_error (''Error inserting data: altman_table - '' @ err) w, self\<lparr>query := q\<rparr>)"
    by blast
  then have "insert_with w self vs =
       (None, logger_error (''Error inserting data: altman_table - '' @ err) w, self\<lparr>query := q\<rparr>)"
    by (simp add: insert_with_def)
  then show ?thesis by blast
qed

lemma insert_with_mismatch:
  assumes "length vs \<noteq> 8"
  shows "\<exists>q. insert_with w self vs =
     (None, logger_error ''ValueError altman_table: Mismatch: altman_table'' w, self\<lparr>query := q\<rparr>)"
  using insert_try_mismatch [OF assms, of w self] by (simp add: insert_with_def) blast

lemma connected_database_files_upd:
  "connected_database w = Inr (p, d) \<Longrightarrow>
   connected_database (w\<lparr>files := (files w)(p \<mapsto> SqliteFile d')\<rparr>) = Inr (p, d')"
  by (auto simp: connected_database_def split: option.splits if_splits file_content.splits)

lemma connected_database_logger_error [simp]:
  "connected_database (logger_error m w) = connected_database w"
  by (simp add: connected_database_def logger_error_def split: option.splits)

lemma select_all_logger_error [simp]:
  "select_all (logger_error m w) t = select_all w t"
  by (simp add: select_all_def)

lemma files_logger_error [simp]: "files (logger_error m w) = files w"
  by (simp add: logger_error_def)

lemma logged_logger_error [simp]: "logged (logger_error m w) = logged w @ [(ERROR, m)]"
  by (simp add: logger_error_def)

lemma select_all_after_insert:
  assumes "connected_database w = Inr (p, d)" "d t = Some tb"
  shows "select_all (w\<lparr>files := (files w)(p \<mapsto> SqliteFile (d(t \<mapsto> insert_row tb cols vs)))\<rparr>) t
           = Some (rows tb @ [new_row tb cols vs])
         \<and> select_all w t = Some (rows tb)"
  using assms connected_database_files_upd [OF assms(1)]
  by (simp add: select_all_def insert_row_def)

lemma map_of_new_row:
  "n \<in> set (map cname cs) \<Longrightarrow> map_of named n = Some v \<Longrightarrow>
   map_of (map (\<lambda>c. (cname c, new_cell tb named c)) cs) n = Some v"
  by (induction cs) (auto simp: new_cell_def)

section \<open>Facts about the operations of the persistence component\<close>

lemma triple_collapse: "p = (fst p, fst (snd p), snd (snd p))"
  by simp

lemma writable_logger_error [simp]: "writable (logger_error m w) = writable w"
  by (simp add: logger_error_def)

lemma default_connection_logger_error [simp]:
  "default_connection (logger_error m w) = default_connection w"
  by (simp add: logger_error_def)

lemma path_exists_logger_error [simp]: "path_exists (logger_error m w) p = path_exists w p"
  by (simp add: path_exists_def)

lemma initialize_database_existing:
  "path_exists w tgt \<Longrightarrow> initialize_database src tgt w = (None, w)"
  by (simp add: initialize_database_def initialize_database_try_def)

lemma initialize_database_returns: "fst (initialize_database src tgt w) = None"
  by (simp add: initialize_database_def split: prod.splits option.splits)

lemma initialize_database_copy:
  assumes "\<not> path_exists w tgt" "path_exists w src" "writable w tgt"
  shows "initialize_database src tgt w = (None, w\<lparr>files := (files w)(tgt := files w src)\<rparr>)"
  using assms
  by (auto simp: initialize_database_def initialize_database_try_def shutil_copy_def
      path_exists_def)

lemma initialize_database_copy_fails:
  assumes "\<not> path_exists w tgt" "path_exists w src" "\<not> writable w tgt"
  shows "initialize_database src tgt w =
           (None, logger_error ''Error: Unable to create database'' w)"
  using assms
  by (auto simp: initialize_database_def initialize_database_try_def shutil_copy_def
      path_exists_def)

lemma initialize_database_create:
  assumes "\<not> path_exists w tgt" "\<not> path_exists w src" "writable w tgt"
  shows "initialize_database src tgt w =
           (None, w\<lparr>files := (files w)(tgt \<mapsto> SqliteFile Map.empty),
                     default_connection := Some \<lparr>databaseName = tgt, isOpen = False\<rparr>\<rparr>)"
  using assms
  by (simp add: initialize_database_def initialize_database_try_def path_exists_def
      addDatabase_def setDatabaseName_def db_open_def db_close_def Let_def)

lemma initialize_database_create_fails:
  assumes "\<not> path_exists w tgt" "\<not> path_exists w src" "\<not> writable w tgt"
  shows "initialize_database src tgt w =
           (None, logger_error ''Error: Unable to create database''
                    (w\<lparr>default_connection := Some \<lparr>databaseName = tgt, isOpen = False\<rparr>\<rparr>))"
  using assms
  by (simp add: initialize_database_def initialize_database_try_def path_exists_def
      addDatabase_def setDatabaseName_def db_open_def db_close_def Let_def logger_error_def)

lemma DataManager_init_on_empty_store:
  assumes "files w tgt = Some (SqliteFile Map.empty)" "writable w tgt"
  shows "store_table (fst (snd (DataManager_init tgt w))) tgt ''altman_table''
           = Some empty_altman_table
       \<and> fst (DataManager_init tgt w) = None"
  using assms
  by (simp add: DataManager_init_def DataManager_init_try_def setup_tables_def
      setup_altman_table_def query_exec_sql_def query_prepare_def compile_def
      connected_database_def addDatabase_def setDatabaseName_def db_open_def Let_def
      logger_info_def parse_sql_create query_exec_def run_statement_def new_query_def
      store_table_def empty_altman_table_def)

lemma logged_logger_info [simp]: "logged (logger_info m w) = logged w @ [(INFO, m)]"
  by (simp add: logger_info_def)

lemma files_logger_info [simp]: "files (logger_info m w) = files w"
  by (simp add: logger_info_def)

lemma default_connection_logger_info [simp]:
  "default_connection (logger_info m w) = default_connection w"
  by (simp add: logger_info_def)

lemma connected_database_logger_info [simp]:
  "connected_database (logger_info m w) = connected_database w"
  by (simp add: connected_database_def split: option.splits)

lemma setup_altman_table_returns: "fst (setup_altman_table w self) = None"
  by (simp add: setup_altman_table_def split: prod.splits)

lemma setup_altman_table_rejected:
  assumes "\<not> create_accepted w"
  shows "logged (fst (snd (setup_altman_table w self)))
           = logged w @ [(ERROR, ''Error creating table: altman_table'')]"
  using assms
  by (auto simp: setup_altman_table_def query_exec_sql_def query_prepare_def compile_def
      parse_sql_create query_exec_def run_statement_def create_accepted_def
      split: sum.splits option.splits)

lemma DataManager_init_try_returns: "fst (DataManager_init_try name w) = None"
  by (simp add: DataManager_init_try_def setup_tables_def setup_altman_table_returns Let_def
      split: prod.splits)

lemma DataManager_init_eq: "DataManager_init name w = DataManager_init_try name w"
proof (cases "DataManager_init_try name w")
  case (fields r w' self)
  with DataManager_init_try_returns [of name w] have "r = None" by simp
  with fields show ?thesis by (simp add: DataManager_init_def)
qed

lemma DataManager_init_returns: "fst (DataManager_init name w) = None"
  by (simp add: DataManager_init_eq DataManager_init_try_returns)

lemma DataManager_init_unopened:
  assumes "\<not> path_exists w name" "\<not> writable w name"
  shows "logged (fst (snd (DataManager_init name w)))
           = logged w @ [(ERROR, ''Error: Unable to open database''), (INFO, ''DB INITIALIZING''),
                         (ERROR, ''Error creating table: altman_table'')]
       \<and> files (fst (snd (DataManager_init name w))) = files w
       \<and> default_connection (fst (snd (DataManager_init name w)))
           = Some \<lparr>databaseName = name, isOpen = False\<rparr>"
proof -
  let ?w4 = "logger_info ''DB INITIALIZING'' (logger_error ''Error: Unable to open database''
               (w\<lparr>default_connection := Some \<lparr>databaseName = name, isOpen = False\<rparr>\<rparr>))"
  let ?self = "\<lparr>db = Some DefaultConnection, query = new_query\<rparr>"
  have body: "DataManager_init_try name w = setup_altman_table ?w4 ?self"
    using assms
    by (simp add: DataManager_init_try_def setup_tables_def addDatabase_def setDatabaseName_def
        db_open_def path_exists_def Let_def)
  have "\<not> create_accepted ?w4"
    by (simp add: create_accepted_def connected_database_def)
  from setup_altman_table_rejected [OF this, of ?self]
  have lg: "logged (fst (snd (setup_altman_table ?w4 ?self)))
          = logged w @ [(ERROR, ''Error: Unable to open database''), (INFO, ''DB INITIALIZING''),
                         (ERROR, ''Error creating table: altman_table'')]"
    by simp
  have rest: "files (fst (snd (setup_altman_table ?w4 ?self))) = files w
     \<and> default_connection (fst (snd (setup_altman_table ?w4 ?self)))
          = Some \<lparr>databaseName = name, isOpen = False\<rparr>"
    by (simp add: setup_altman_table_def query_exec_sql_def query_prepare_def compile_def
        connected_database_def)
  have "fst (snd (DataManager_init name w)) = fst (snd (setup_altman_table ?w4 ?self))"
    by (simp add: DataManager_init_eq body)
  with lg rest show ?thesis by simp
qed

lemma insert_with_returns: "fst (insert_with w self vs) = None"
proof (cases "length vs = 8")
  case True
  then show ?thesis
    using insert_with_accepted [OF True, of w self] insert_with_rejected [OF True, of w self]
    by (cases "insert_accepted w") auto
next
  case False
  then show ?thesis using insert_with_mismatch [OF False, of w self] by auto
qed

lemma close_database_returns: "fst (close_database w self) = None"
  by (simp add: close_database_def split: prod.splits option.splits)

lemma close_database_no_db:
  "db self = None \<Longrightarrow>
   close_database w self =
     (None, logger_error ''Error closing database: '' (logger_info ''if database is open'' w))"
  by (simp add: close_database_def close_database_try_def)

lemma db_isOpen_logger_info [simp]: "db_isOpen (logger_info m w) = db_isOpen w"
  by (simp add: db_isOpen_def)

lemma close_database_open:
  "db self = Some h \<Longrightarrow> db_isOpen w \<Longrightarrow>
   close_database w self =
     (None, db_close (logger_info ''the database is closed successfully''
                        (logger_info ''if database is open'' w)))"
  by (simp add: close_database_def close_database_try_def)

lemma close_database_closed:
  "db self = Some h \<Longrightarrow> \<not> db_isOpen w \<Longrightarrow>
   close_database w self = (None, logger_info ''if database is open'' w)"
  by (simp add: close_database_def close_database_try_def)

lemma db_close_facts [simp]:
  "files (db_close w) = files w" "logged (db_close w) = logged w"
  "\<not> db_isOpen (db_close w)"
  "default_connection (db_close w) = map_option (\<lambda>c. c\<lparr>isOpen := False\<rparr>) (default_connection w)"
  by (simp_all add: db_close_def db_isOpen_def split: option.splits)

lemma close_database_effect:
  "files (snd (close_database w self)) = files w
   \<and> default_connection (snd (close_database w self))
       = (if db self \<noteq> None \<and> db_isOpen w
          then map_option (\<lambda>c. c\<lparr>isOpen := False\<rparr>) (default_connection w)
          else default_connection w)"
proof (cases "db self")
  case None
  then show ?thesis by (simp add: close_database_no_db)
next
  case (Some h)
  then show ?thesis
    by (cases "db_isOpen w") (simp_all add: close_database_open close_database_closed)
qed

lemma close_database_closes:
  "db self \<noteq> None \<Longrightarrow> \<not> db_isOpen (snd (close_database w self))"
  by (cases "db_isOpen w") (auto simp: close_database_open close_database_closed)

section \<open>Facts about the example states\<close>

lemma insert_accepted_quiet:
  assumes "insert_accepted w"
  shows "logged (fst (snd (insert_into_altman_table w self date time sleep speech activity cheer
           confidence summary))) = logged w"
proof -
  have "length [VStr date, VStr time, VInt sleep, VInt speech, VInt activity, VInt cheer,
                VInt confidence, VInt summary] = 8" by simp
  from insert_with_accepted [OF this assms, of self] show ?thesis
    by (auto simp: insert_into_altman_table_def)
qed

lemma insert_accepted_row:
  assumes "insert_accepted w"
  shows "\<exists>rs row. select_all w ''altman_table'' = Some rs
      \<and> select_all (fst (snd (insert_into_altman_table w self date time sleep speech activity
            cheer confidence summary))) ''altman_table'' = Some (rs @ [row])
      \<and> cell row ''altman_date'' = Some (to_sql (VStr date))
      \<and> cell row ''altman_time'' = Some (to_sql (VStr time))
      \<and> cell row ''altmans_sleep'' = Some (to_sql (VInt sleep))
      \<and> cell row ''altmans_speech'' = Some (to_sql (VInt speech))
      \<and> cell row ''altmans_activity'' = Some (to_sql (VInt activity))
      \<and> cell row ''altmans_cheer'' = Some (to_sql (VInt cheer))
      \<and> cell row ''altmans_confidence'' = Some (to_sql (VInt confidence))
      \<and> cell row ''altmans_summary'' = Some (to_sql (VInt summary))"
proof -
  let ?vs = "[VStr date, VStr time, VInt sleep, VInt speech, VInt activity, VInt cheer,
              VInt confidence, VInt summary]"
  let ?named = "zip insert_columns (map to_sql ?vs)"
  let ?w' = "fst (snd (insert_into_altman_table w self date time sleep speech activity
            cheer confidence summary))"
  have len: "length ?vs = 8" by simp
  from insert_with_accepted [OF len assms, of self] obtain p d tb where h:
    "connected_database w = Inr (p, d)" "d ''altman_table'' = Some tb"
    "list_all (\<lambda>c. c \<in> set (map cname (columns tb))) insert_columns"
    "?w' = w\<lparr>files := (files w)(p \<mapsto> SqliteFile
               (d(''altman_table'' \<mapsto> insert_row tb insert_columns ?vs)))\<rparr>"
    by (auto simp: insert_into_altman_table_def)
  let ?row = "new_row tb insert_columns ?vs"
  have sel: "select_all w ''altman_table'' = Some (rows tb)"
    "select_all ?w' ''altman_table'' = Some (rows tb @ [?row])"
    using select_all_after_insert [OF h(1,2), of insert_columns ?vs] h(4) by simp_all
  have cols: "\<And>n. n \<in> set insert_columns \<Longrightarrow> n \<in> set (map cname (columns tb))"
    using h(3) by (simp add: list_all_iff)
  have get: "\<And>n v. n \<in> set insert_columns \<Longrightarrow> map_of ?named n = Some v \<Longrightarrow> cell ?row n = Some v"
    unfolding cell_def new_row_def by (rule map_of_new_row [OF cols])
  have "cell ?row ''altman_date'' = Some (to_sql (VStr date))"
    "cell ?row ''altman_time'' = Some (to_sql (VStr time))"
    "cell ?row ''altmans_sleep'' = Some (to_sql (VInt sleep))"
    "cell ?row ''altmans_speech'' = Some (to_sql (VInt speech))"
    "cell ?row ''altmans_activity'' = Some (to_sql (VInt activity))"
    "cell ?row ''altmans_cheer'' = Some (to_sql (VInt cheer))"
    "cell ?row ''altmans_confidence'' = Some (to_sql (VInt confidence))"
    "cell ?row ''altmans_summary'' = Some (to_sql (VInt summary))"
    by (rule get; simp add: insert_columns_def del: to_sql.simps)+
  with sel show ?thesis by blast
qed

lemma ready_world_accepted: "insert_accepted ready_world"
  by (simp add: insert_accepted_def connected_database_def ready_world_def
      empty_altman_table_def expected_columns_def insert_columns_def)

lemma readonly_world_rejected: "\<not> insert_accepted readonly_world"
  by (simp add: insert_accepted_def connected_database_def readonly_world_def)

lemma locked_world_rejected: "\<not> insert_accepted locked_world \<and> \<not> create_accepted locked_world"
  by (simp add: insert_accepted_def create_accepted_def connected_database_def locked_world_def)

lemma ready_world_rows: "select_all ready_world ''altman_table'' = Some []"
  by (simp add: select_all_def connected_database_def ready_world_def empty_altman_table_def)

lemma readonly_world_rows: "select_all readonly_world ''altman_table'' = Some []"
  by (simp add: select_all_def connected_database_def readonly_world_def empty_altman_table_def)

lemma fresh_world_facts:
  "\<not> path_exists fresh_world home_db" "\<not> path_exists fresh_world app_db"
  "writable fresh_world home_db"
  by (simp_all add: path_exists_def fresh_world_def)

lemma template_world_facts:
  "\<not> path_exists template_world home_db" "path_exists template_world app_db"
  "writable template_world home_db" "files template_world app_db = Some (OtherFile [83, 81, 76])"
  by (simp_all add: path_exists_def template_world_def app_db_def home_db_def)

lemma ready_world_exists: "path_exists ready_world home_db"
  by (simp add: path_exists_def ready_world_def)

lemma locked_world_facts:
  "\<not> path_exists locked_world home_db" "\<not> writable locked_world home_db"
  "logged locked_world = []"
  by (simp_all add: path_exists_def locked_world_def)

lemma ready_world_open: "db_isOpen ready_world" "\<not> db_isOpen fresh_world"
  by (simp_all add: db_isOpen_def ready_world_def fresh_world_def)

section \<open>The summary is the sum of the positive scale values\<close>

lemma sumabitch_positive_parts:
  "sumabitch u =
     positive_part (wvalue (altmans_sleep u)) + positive_part (wvalue (altmans_speech u)) +
     positive_part (wvalue (altmans_activity u)) + positive_part (wvalue (altmans_cheer u)) +
     positive_part (wvalue (altmans_confidence u))"
  by (simp add: sumabitch_def sliders_def positive_part_def)

lemma positive_part_bounds: "in_scale v \<Longrightarrow> 0 \<le> positive_part v \<and> positive_part v \<le> 5"
  by (simp add: positive_part_def in_scale_def)

lemma sumabitch_bounds:
  assumes "\<forall>s \<in> set (sliders u). in_scale (wvalue s)"
  shows "0 \<le> sumabitch u \<and> sumabitch u \<le> 25"
proof -
  from assms have b:
    "in_scale (wvalue (altmans_sleep u))" "in_scale (wvalue (altmans_speech u))"
    "in_scale (wvalue (altmans_activity u))" "in_scale (wvalue (altmans_cheer u))"
    "in_scale (wvalue (altmans_confidence u))"
    by (simp_all add: sliders_def)
  show ?thesis
    using b[THEN positive_part_bounds] by (simp add: sumabitch_positive_parts)
qed

lemma setValue_inside:
  "minimum wd \<le> v \<Longrightarrow> v \<le> maximum wd \<Longrightarrow> wvalue (setValue wd v) = v"
  by (simp add: setValue_def)

section \<open>Facts about the form and the events of the window\<close>

lemma slider_of_put_slider:
  "slider_of s' (put_slider s wd u) = (if s' = s then wd else slider_of s' u)"
  by (cases s; cases s') simp_all

lemma put_slider_other [simp]:
  "altmans_summary (put_slider s wd u) = altmans_summary u"
  "connected (put_slider s wd u) = connected u"
  by (cases s; simp)+

lemma update_altmans_summary_keeps [simp]:
  "altmans_sleep (update_altmans_summary u) = altmans_sleep u"
  "altmans_speech (update_altmans_summary u) = altmans_speech u"
  "altmans_activity (update_altmans_summary u) = altmans_activity u"
  "altmans_cheer (update_altmans_summary u) = altmans_cheer u"
  "altmans_confidence (update_altmans_summary u) = altmans_confidence u"
  "connected (update_altmans_summary u) = connected u"
  "minimum (altmans_summary (update_altmans_summary u)) = minimum (altmans_summary u)"
  "maximum (altmans_summary (update_altmans_summary u)) = maximum (altmans_summary u)"
  "enabled (altmans_summary (update_altmans_summary u)) = enabled (altmans_summary u)"
  by (simp_all add: update_altmans_summary_def setValue_def)

lemma slider_of_update [simp]:
  "slider_of s (update_altmans_summary u) = slider_of s u"
  by (cases s) simp_all

lemma sumabitch_update [simp]: "sumabitch (update_altmans_summary u) = sumabitch u"
  by (simp add: sumabitch_def sliders_def)

lemma sumabitch_cong:
  "(\<And>s. wvalue (slider_of s u') = wvalue (slider_of s u)) \<Longrightarrow> sumabitch u' = sumabitch u"
proof -
  assume h: "\<And>s. wvalue (slider_of s u') = wvalue (slider_of s u)"
  from h [of Sleep] h [of Speech] h [of Activity] h [of Cheer] h [of Confidence]
  show ?thesis by (simp add: sumabitch_positive_parts)
qed

lemma change_slider_facts:
  "slider_of s' (change_slider s wd u) = (if s' = s then wd else slider_of s' u)"
  "connected (change_slider s wd u) = connected u"
  "minimum (altmans_summary (change_slider s wd u)) = minimum (altmans_summary u)"
  "maximum (altmans_summary (change_slider s wd u)) = maximum (altmans_summary u)"
  "enabled (altmans_summary (change_slider s wd u)) = enabled (altmans_summary u)"
  by (simp_all add: change_slider_def Let_def slider_of_put_slider)

lemma form_ok_sliders:
  "form_ok u \<Longrightarrow> slider_ok (slider_of s u)"
  by (cases s) (simp_all add: form_ok_def)

lemma form_ok_connected: "form_ok u \<Longrightarrow> s \<in> connected u"
  by (cases s) (auto simp: form_ok_def all_sliders_def)

lemma form_okI:
  assumes "\<And>s. slider_ok (slider_of s u)" "\<not> enabled (altmans_summary u)"
    "minimum (altmans_summary u) \<le> 0" "25 \<le> maximum (altmans_summary u)"
    "\<And>s. s \<in> connected u" "wvalue (altmans_summary u) = sumabitch u"
  shows "form_ok u"
  using assms(1) [of Sleep] assms(1) [of Speech] assms(1) [of Activity] assms(1) [of Cheer]
    assms(1) [of Confidence] assms(2-6)
  by (auto simp: form_ok_def all_sliders_def)

lemma sumabitch_range:
  assumes "\<And>s. slider_ok (slider_of s u)"
  shows "0 \<le> sumabitch u \<and> sumabitch u \<le> 25"
proof (rule sumabitch_bounds)
  from assms [of Sleep] assms [of Speech] assms [of Activity] assms [of Cheer]
    assms [of Confidence]
  show "\<forall>s \<in> set (sliders u). in_scale (wvalue s)"
    by (simp add: sliders_def slider_ok_def)
qed

lemma update_establishes:
  assumes "\<And>s. slider_ok (slider_of s u)"
    "minimum (altmans_summary u) \<le> 0" "25 \<le> maximum (altmans_summary u)"
  shows "wvalue (altmans_summary (update_altmans_summary u)) = sumabitch u"
  using sumabitch_range [of u, OF assms(1)] assms(2,3)
  by (simp add: update_altmans_summary_def setValue_inside)

lemma setValue_slider_ok: "slider_ok wd \<Longrightarrow> slider_ok (setValue wd v)"
  by (auto simp: slider_ok_def setValue_def in_scale_def)

lemma setValue_same: "wvalue (setValue wd v) = wvalue wd \<Longrightarrow> setValue wd v = wd"
  by (simp add: setValue_def)

lemma put_slider_same: "put_slider s (slider_of s u) u = u"
  by (cases s) simp_all

lemma slider_setValue_form_ok:
  assumes "form_ok u"
  shows "form_ok (slider_setValue s v u)"
proof -
  let ?wd = "setValue (slider_of s u) v"
  have ok: "slider_ok ?wd" by (rule setValue_slider_ok [OF form_ok_sliders [OF assms]])
  show ?thesis
  proof (cases "wvalue ?wd = wvalue (slider_of s u)")
    case True
    then have "?wd = slider_of s u" by (rule setValue_same)
    then have "slider_setValue s v u = u"
      by (simp add: slider_setValue_def change_slider_def put_slider_same)
    with assms show ?thesis by simp
  next
    case False
    let ?u' = "put_slider s ?wd u"
    have eq: "slider_setValue s v u = update_altmans_summary ?u'"
      using False form_ok_connected [OF assms, of s]
      by (simp add: slider_setValue_def change_slider_def)
    have sl: "\<And>s'. slider_ok (slider_of s' ?u')"
      using ok form_ok_sliders [OF assms] by (simp add: slider_of_put_slider)
    have rng: "minimum (altmans_summary ?u') \<le> 0" "25 \<le> maximum (altmans_summary ?u')"
      "\<not> enabled (altmans_summary ?u')"
      using assms by (simp_all add: form_ok_def)
    show ?thesis
      unfolding eq
    proof (rule form_okI)
      show "\<And>s'. slider_ok (slider_of s' (update_altmans_summary ?u'))" using sl by simp
      show "\<not> enabled (altmans_summary (update_altmans_summary ?u'))" using rng by simp
      show "minimum (altmans_summary (update_altmans_summary ?u')) \<le> 0" using rng by simp
      show "25 \<le> maximum (altmans_summary (update_altmans_summary ?u'))" using rng by simp
      show "\<And>s'. s' \<in> connected (update_altmans_summary ?u')"
        using form_ok_connected [OF assms] by simp
      show "wvalue (altmans_summary (update_altmans_summary ?u'))
              = sumabitch (update_altmans_summary ?u')"
        using update_establishes [of ?u', OF sl rng(1,2)] by simp
    qed
  qed
qed

lemma setRange_slider_ok: "slider_ok (setRange 0 5 wd)"
  by (auto simp: slider_ok_def setRange_def setValue_def in_scale_def Let_def)

lemma slider_setRange_facts:
  "slider_of s' (slider_setRange s lo hi u)
     = (if s' = s then setRange lo hi (slider_of s u) else slider_of s' u)"
  "connected (slider_setRange s lo hi u) = connected u"
  "minimum (altmans_summary (slider_setRange s lo hi u)) = minimum (altmans_summary u)"
  "maximum (altmans_summary (slider_setRange s lo hi u)) = maximum (altmans_summary u)"
  "enabled (altmans_summary (slider_setRange s lo hi u)) = enabled (altmans_summary u)"
  by (simp_all add: slider_setRange_def change_slider_facts)

lemma altman_table_commit_facts:
  "slider_ok (slider_of s (altman_table_commit u))"
  "\<not> enabled (altmans_summary (altman_table_commit u))"
  "minimum (altmans_summary (altman_table_commit u)) = minimum (altmans_summary u)"
  "maximum (altmans_summary (altman_table_commit u)) = maximum (altmans_summary u)"
  "s \<in> connected (altman_table_commit u)"
proof -
  let ?u1 = "u\<lparr>altmans_summary := setEnabled False (altmans_summary u)\<rparr>"
  let ?u2 = "fold (\<lambda>s. slider_setRange s 0 5) [Sleep, Speech, Activity, Cheer, Confidence] ?u1"
  have commit: "altman_table_commit u
      = ?u2\<lparr>connected := connected ?u2 \<union> {Sleep, Speech, Activity, Cheer, Confidence}\<rparr>"
    by (simp add: altman_table_commit_def Let_def)
  have sl: "slider_ok (slider_of s ?u2)"
    by (cases s) (simp_all add: slider_setRange_facts setRange_slider_ok)
  have "slider_of s (altman_table_commit u) = slider_of s ?u2"
    unfolding commit by (cases s) simp_all
  with sl show "slider_ok (slider_of s (altman_table_commit u))" by simp
  show "\<not> enabled (altmans_summary (altman_table_commit u))"
    unfolding commit by (simp add: slider_setRange_facts setEnabled_def)
  show "minimum (altmans_summary (altman_table_commit u)) = minimum (altmans_summary u)"
    unfolding commit by (simp add: slider_setRange_facts setEnabled_def)
  show "maximum (altmans_summary (altman_table_commit u)) = maximum (altmans_summary u)"
    unfolding commit by (simp add: slider_setRange_facts setEnabled_def)
  show "s \<in> connected (altman_table_commit u)"
    unfolding commit by (cases s) simp_all
qed

lemma construction_form_ok:
  assumes "minimum (altmans_summary u) \<le> 0" "25 \<le> maximum (altmans_summary u)"
  shows "form_ok (update_altmans_summary (altman_table_commit u))"
proof (rule form_okI)
  let ?c = "altman_table_commit u"
  show "\<And>s. slider_ok (slider_of s (update_altmans_summary ?c))"
    by (simp add: altman_table_commit_facts)
  show "\<not> enabled (altmans_summary (update_altmans_summary ?c))"
    by (simp add: altman_table_commit_facts)
  show "minimum (altmans_summary (update_altmans_summary ?c)) \<le> 0"
    using assms by (simp add: altman_table_commit_facts)
  show "25 \<le> maximum (altmans_summary (update_altmans_summary ?c))"
    using assms by (simp add: altman_table_commit_facts)
  show "\<And>s. s \<in> connected (update_altmans_summary ?c)"
    by (simp add: altman_table_commit_facts)
  have "wvalue (altmans_summary (update_altmans_summary ?c)) = sumabitch ?c"
    using assms by (intro update_establishes) (simp_all add: altman_table_commit_facts)
  then show "wvalue (altmans_summary (update_altmans_summary ?c))
               = sumabitch (update_altmans_summary ?c)" by simp
qed

lemma form_ok_more:
  "form_ok (mw\<lparr>db_manager := dm\<rparr>) = form_ok mw"
  "form_ok (mw\<lparr>settings := st\<rparr>) = form_ok mw"
  by (simp_all add: form_ok_def sumabitch_def sliders_def)

lemma handle_form_ok:
  assumes "form_ok mw"
  shows "form_ok (snd (snd (handle w mw e)))"
proof (cases e)
  case (SliderMoved s v)
  then show ?thesis using slider_setValue_form_ok [OF assms] by simp
next
  case (SummaryEdited v)
  then show ?thesis using assms by (simp add: form_ok_def)
next
  case (CommitTriggered date time sleep speech activity cheer confidence summary)
  then show ?thesis using assms by (simp add: form_ok_more split: prod.splits)
next
  case (PageChanged i)
  then show ?thesis using assms by (simp add: on_page_changed_def form_ok_more)
next
  case CloseEvent
  then show ?thesis using assms by (simp add: closeEvent_def save_state_def form_ok_more)
qed

lemma run_form_ok:
  "form_ok mw \<Longrightarrow> form_ok (snd (snd (run w mw es)))"
proof (induction es arbitrary: w mw)
  case Nil
  then show ?case by simp
next
  case (Cons e es)
  obtain r w1 mw1 where h: "handle w mw e = (r, w1, mw1)" by (cases "handle w mw e") auto
  with handle_form_ok [OF Cons.prems, of w e] have ok: "form_ok mw1" by simp
  show ?case
  proof (cases r)
    case None
    with h Cons.IH [OF ok, of w1] show ?thesis by simp
  next
    case (Some x)
    with h ok show ?thesis by simp
  qed
qed

lemma MainWindow_init_form_ok:
  assumes "minimum (altmans_summary form) \<le> 0" "25 \<le> maximum (altmans_summary form)"
  shows "form_ok (snd (snd (MainWindow_init tgt w form stored geo st)))"
proof -
  obtain r w1 dm where h: "DataManager_init tgt w = (r, w1, dm)"
    by (cases "DataManager_init tgt w") auto
  with DataManager_init_returns [of tgt w] have "r = None" by simp
  let ?mw = "ui.extend form
      \<lparr>db_manager = dm, settings = stored, geometry = geo, windowState = st\<rparr>"
  have "minimum (altmans_summary ?mw) \<le> 0" "25 \<le> maximum (altmans_summary ?mw)"
    using assms by (simp_all add: ui.defs)
  from construction_form_ok [OF this] h \<open>r = None\<close> show ?thesis
    by (simp add: MainWindow_init_def)
qed

lemma wild_form_range:
  "minimum (altmans_summary wild_form) \<le> 0" "25 \<le> maximum (altmans_summary wild_form)"
  by (simp_all add: wild_form_def)

lemma insert_with_connection:
  "default_connection (fst (snd (insert_with w self vs))) = default_connection w"
proof (cases "length vs = 8")
  case True
  show ?thesis
  proof (cases "insert_accepted w")
    case True
    from insert_with_accepted [OF \<open>length vs = 8\<close> True, of self] show ?thesis by auto
  next
    case False
    from insert_with_rejected [OF \<open>length vs = 8\<close> False, of self] show ?thesis by auto
  qed
next
  case False
  from insert_with_mismatch [OF False, of w self] show ?thesis by auto
qed

lemma handle_connection:
  "fst (handle w mw e) = None
   \<and> default_connection (fst (snd (handle w mw e))) = default_connection w"
proof (cases e)
  case (CommitTriggered date time sleep speech activity cheer confidence summary)
  let ?vs = "[VStr date, VStr time, VInt sleep, VInt speech, VInt activity, VInt cheer,
              VInt confidence, VInt summary]"
  from insert_with_returns [of w "db_manager mw" ?vs]
    insert_with_connection [of w "db_manager mw" ?vs] CommitTriggered
  show ?thesis
    by (auto simp: insert_into_altman_table_def split: prod.splits)
qed (simp_all add: closeEvent_def)

lemma run_connection:
  "fst (run w mw es) = None
   \<and> default_connection (fst (snd (run w mw es))) = default_connection w"
proof (induction es arbitrary: w mw)
  case Nil
  then show ?case by simp
next
  case (Cons e es)
  obtain r w1 mw1 where h: "handle w mw e = (r, w1, mw1)" by (cases "handle w mw e") auto
  with handle_connection [of w mw e]
  have "r = None" "default_connection w1 = default_connection w" by simp_all
  with h Cons.IH [of w1 mw1] show ?case by simp
qed

lemma setup_altman_table_connection:
  "default_connection (fst (snd (setup_altman_table w self))) = default_connection w"
  by (auto simp: setup_altman_table_def query_exec_sql_def query_prepare_def query_exec_def
      run_statement_def compile_def parse_sql_create
      split: prod.splits sum.splits option.splits if_splits)

lemma DataManager_init_opens:
  assumes "path_exists w name \<or> writable w name"
  shows "db_isOpen (fst (snd (DataManager_init name w)))"
proof -
  have "default_connection (fst (snd (DataManager_init name w)))
          = Some \<lparr>databaseName = name, isOpen = True\<rparr>"
    using assms
    by (auto simp: DataManager_init_eq DataManager_init_try_def setup_tables_def
        setup_altman_table_connection addDatabase_def setDatabaseName_def db_open_def
        path_exists_def Let_def split: prod.splits option.splits)
  then show ?thesis by (simp add: db_isOpen_def)
qed

lemma MainWindow_init_world:
  "fst (MainWindow_init tgt w form stored geo st) = None
   \<and> fst (snd (MainWindow_init tgt w form stored geo st)) = fst (snd (DataManager_init tgt w))"
  using DataManager_init_returns [of tgt w]
  by (auto simp: MainWindow_init_def split: prod.splits option.splits)

section \<open>The claim about the summary\<close>

text \<open>
  Claim C1. For every tuple of five scale values, each in \<open>[0,5]\<close>, the summary that
  \<open>update_altmans_summary\<close> computes and shows is the sum of the values that are
  strictly greater than 0 (the summary control must be able to show 0 to 25, its range
  being set by the generated form).
\<close>

theorem update_altmans_summary_sum:
  assumes "in_scale a" "in_scale b" "in_scale c" "in_scale d" "in_scale e"
    and "wvalue (altmans_sleep u) = a" "wvalue (altmans_speech u) = b"
    and "wvalue (altmans_activity u) = c" "wvalue (altmans_cheer u) = d"
    and "wvalue (altmans_confidence u) = e"
    and "minimum (altmans_summary u) \<le> 0" "25 \<le> maximum (altmans_summary u)"
  shows "sumabitch u = positive_part a + positive_part b + positive_part c +
           positive_part d + positive_part e
       \<and> wvalue (altmans_summary (update_altmans_summary u)) = sumabitch u"
proof -
  have s: "sumabitch u = positive_part a + positive_part b + positive_part c +
             positive_part d + positive_part e"
    using assms(6-10) by (simp add: sumabitch_positive_parts)
  have "\<forall>s \<in> set (sliders u). in_scale (wvalue s)"
    using assms(1-10) by (simp add: sliders_def)
  then have "0 \<le> sumabitch u \<and> sumabitch u \<le> 25"
    by (rule sumabitch_bounds)
  then have "wvalue (setValue (altmans_summary u) (sumabitch u)) = sumabitch u"
    using assms(11,12) by (intro setValue_inside) simp_all
  then show ?thesis
    using s by (simp add: update_altmans_summary_def)
qed

theorem update_altmans_summary_sum_witness:
  "in_scale 5 \<and> in_scale 0 \<and> in_scale 3 \<and> in_scale 2
   \<and> sumabitch example_form = 10
   \<and> wvalue (altmans_summary (update_altmans_summary example_form)) = 10
   \<and> sumabitch zero_form = 0
   \<and> wvalue (altmans_summary (update_altmans_summary zero_form)) = 0"
  using update_altmans_summary_sum [of 5 0 3 0 2 example_form]
    update_altmans_summary_sum [of 0 0 0 0 0 zero_form]
  by (simp add: in_scale_def example_form_def zero_form_def slider_at_def positive_part_def)

section \<open>Inserting a row\<close>

text \<open>
  Claim C2, as amended. A call of \<open>insert_into_altman_table\<close> with its eight values
  never raises. When the engine executes the statement (\<open>insert_accepted\<close>), the row
  count of \<open>altman_table\<close> grows by exactly one and nothing is logged; when it does
  not, no file changes, the row count stays as it was and the engine's error is logged.
  When the number of bind values differs from the number of placeholders, nothing is
  written and the mismatch is logged.
\<close>

theorem insert_row_count:
  assumes "insert_into_altman_table w self date time sleep speech activity cheer confidence
             summary = (r, w', self')"
      and "insert_with w self vs = (r2, w2, self2)"
  shows "r = None
       \<and> (insert_accepted w \<longrightarrow>
            row_count w' ''altman_table'' = row_count w ''altman_table'' + 1
            \<and> logged w' = logged w)
       \<and> (\<not> insert_accepted w \<longrightarrow>
            files w' = files w \<and> row_count w' ''altman_table'' = row_count w ''altman_table''
            \<and> (\<exists>err. logged w' =
                  logged w @ [(ERROR, ''Error inserting data: altman_table - '' @ err)]))
       \<and> (length vs \<noteq> count_list sql_insert (CHR ''?'') \<longrightarrow>
            r2 = None \<and> files w2 = files w
            \<and> logged w2 = logged w @ [(ERROR, ''ValueError altman_table: Mismatch: altman_table'')])"
proof -
  let ?vs = "[VStr date, VStr time, VInt sleep, VInt speech, VInt activity, VInt cheer,
              VInt confidence, VInt summary]"
  have call: "insert_with w self ?vs = (r, w', self')"
    using assms(1) by (simp add: insert_into_altman_table_def)
  have len: "length ?vs = 8" by simp
  have a: "r = None"
  proof (cases "insert_accepted w")
    case True
    from insert_with_accepted [OF len True, of self] call show ?thesis by auto
  next
    case False
    from insert_with_rejected [OF len False, of self] call show ?thesis by auto
  qed
  have b: "row_count w' ''altman_table'' = row_count w ''altman_table'' + 1 \<and> logged w' = logged w"
    if acc: "insert_accepted w"
  proof -
    from insert_with_accepted [OF len acc, of self] call obtain p d tb where h:
      "connected_database w = Inr (p, d)" "d ''altman_table'' = Some tb"
      "w' = w\<lparr>files := (files w)(p \<mapsto> SqliteFile
                 (d(''altman_table'' \<mapsto> insert_row tb insert_columns ?vs)))\<rparr>"
      by auto
    from select_all_after_insert [OF h(1,2), of insert_columns ?vs] h(3)
    show ?thesis by (simp add: row_count_def)
  qed
  have c: "files w' = files w \<and> row_count w' ''altman_table'' = row_count w ''altman_table''
            \<and> (\<exists>err. logged w' =
                  logged w @ [(ERROR, ''Error inserting data: altman_table - '' @ err)])"
    if rej: "\<not> insert_accepted w"
  proof -
    from insert_with_rejected [OF len rej, of self] call obtain err where
      "w' = logger_error (''Error inserting data: altman_table - '' @ err) w" by auto
    then show ?thesis by (auto simp: row_count_def)
  qed
  have d: "r2 = None \<and> files w2 = files w
            \<and> logged w2 = logged w @ [(ERROR, ''ValueError altman_table: Mismatch: altman_table'')]"
    if mis: "length vs \<noteq> count_list sql_insert (CHR ''?'')"
  proof -
    from mis have "length vs \<noteq> 8" by (simp add: count_placeholders)
    from insert_with_mismatch [OF this, of w self] assms(2) show ?thesis by auto
  qed
  from a b c d show ?thesis by blast
qed

theorem insert_row_count_witness:
  "insert_accepted ready_world
   \<and> row_count (fst (snd (insert_into_altman_table ready_world a_manager
        ''2024-05-01'' ''09:30'' 1 2 3 4 5 15))) ''altman_table'' = 1
   \<and> \<not> insert_accepted readonly_world
   \<and> row_count (fst (snd (insert_into_altman_table readonly_world a_manager
        ''2024-05-01'' ''09:30'' 1 2 3 4 5 15))) ''altman_table'' = 0
   \<and> length [VInt 1] \<noteq> count_list sql_insert (CHR ''?'')
   \<and> files (fst (snd (insert_with ready_world a_manager [VInt 1]))) = files ready_world"
  using insert_row_count [OF triple_collapse triple_collapse,
      of ready_world a_manager "''2024-05-01''" "''09:30''" 1 2 3 4 5 15 "[VInt 1]"]
    insert_row_count [OF triple_collapse triple_collapse,
      of readonly_world a_manager "''2024-05-01''" "''09:30''" 1 2 3 4 5 15 "[VInt 1]"]
    ready_world_accepted readonly_world_rejected
  by (simp add: row_count_def ready_world_rows readonly_world_rows count_placeholders)

theorem insert_always_succeeds_counterexample:
  "row_count (fst (snd (insert_into_altman_table readonly_world a_manager
        ''2024-05-01'' ''09:30'' 1 2 3 4 5 15))) ''altman_table''
     \<noteq> row_count readonly_world ''altman_table'' + 1"
proof -
  have "length [VStr ''2024-05-01'', VStr ''09:30'', VInt 1, VInt 2, VInt 3, VInt 4, VInt 5,
                VInt 15] = 8" by simp
  from insert_with_rejected [OF this readonly_world_rejected, of a_manager]
  show ?thesis
    by (auto simp: insert_into_altman_table_def row_count_def readonly_world_rows)
qed

text \<open>
  Claim C3, as amended. After a successful call of \<open>insert_into_altman_table\<close> (one
  that logged no error) whose six integer arguments lie in the signed 64-bit range, a
  full-table read returns the rows read before followed by one row whose date, time, five
  scale values and summary are the arguments of the call, each in the column of the same
  name.
\<close>

theorem insert_round_trip:
  assumes "insert_into_altman_table w self date time sleep speech activity cheer confidence
             summary = (r, w', self')"
      and "logged w' = logged w"
      and "int64 sleep" and "int64 speech" and "int64 activity" and "int64 cheer"
      and "int64 confidence" and "int64 summary"
  shows "\<exists>rs row. select_all w ''altman_table'' = Some rs
           \<and> select_all w' ''altman_table'' = Some (rs @ [row])
           \<and> cell row ''altman_date'' = Some (SqlText date)
           \<and> cell row ''altman_time'' = Some (SqlText time)
           \<and> cell row ''altmans_sleep'' = Some (SqlInt sleep)
           \<and> cell row ''altmans_speech'' = Some (SqlInt speech)
           \<and> cell row ''altmans_activity'' = Some (SqlInt activity)
           \<and> cell row ''altmans_cheer'' = Some (SqlInt cheer)
           \<and> cell row ''altmans_confidence'' = Some (SqlInt confidence)
           \<and> cell row ''altmans_summary'' = Some (SqlInt summary)"
proof -
  let ?vs = "[VStr date, VStr time, VInt sleep, VInt speech, VInt activity, VInt cheer,
              VInt confidence, VInt summary]"
  have call: "insert_with w self ?vs = (r, w', self')"
    using assms(1) by (simp add: insert_into_altman_table_def)
  have len: "length ?vs = 8" by simp
  have acc: "insert_accepted w"
  proof (rule ccontr)
    assume "\<not> insert_accepted w"
    from insert_with_rejected [OF len this, of self] call assms(2) show False by auto
  qed
  from insert_accepted_row [OF acc, of self date time sleep speech activity cheer confidence
      summary] assms(1)
  obtain rs row where h: "select_all w ''altman_table'' = Some rs"
    "select_all w' ''altman_table'' = Some (rs @ [row])"
    "cell row ''altman_date'' = Some (to_sql (VStr date))"
    "cell row ''altman_time'' = Some (to_sql (VStr time))"
    "cell row ''altmans_sleep'' = Some (to_sql (VInt sleep))"
    "cell row ''altmans_speech'' = Some (to_sql (VInt speech))"
    "cell row ''altmans_activity'' = Some (to_sql (VInt activity))"
    "cell row ''altmans_cheer'' = Some (to_sql (VInt cheer))"
    "cell row ''altmans_confidence'' = Some (to_sql (VInt confidence))"
    "cell row ''altmans_summary'' = Some (to_sql (VInt summary))"
    by auto
  from h(3-10) assms(3-8) have
    "cell row ''altman_date'' = Some (SqlText date)"
    "cell row ''altman_time'' = Some (SqlText time)"
    "cell row ''altmans_sleep'' = Some (SqlInt sleep)"
    "cell row ''altmans_speech'' = Some (SqlInt speech)"
    "cell row ''altmans_activity'' = Some (SqlInt activity)"
    "cell row ''altmans_cheer'' = Some (SqlInt cheer)"
    "cell row ''altmans_confidence'' = Some (SqlInt confidence)"
    "cell row ''altmans_summary'' = Some (SqlInt summary)"
    by simp_all
  with h(1,2) show ?thesis by blast
qed

theorem insert_round_trip_witness:
  "int64 1 \<and> int64 2 \<and> int64 3 \<and> int64 4 \<and> int64 5 \<and> int64 15
   \<and> (\<exists>row. select_all (fst (snd (insert_into_altman_table ready_world a_manager
             ''2024-05-01'' ''09:30'' 1 2 3 4 5 15))) ''altman_table'' = Some [row]
         \<and> cell row ''altman_date'' = Some (SqlText ''2024-05-01'')
         \<and> cell row ''altman_time'' = Some (SqlText ''09:30'')
         \<and> cell row ''altmans_sleep'' = Some (SqlInt 1)
         \<and> cell row ''altmans_speech'' = Some (SqlInt 2)
         \<and> cell row ''altmans_activity'' = Some (SqlInt 3)
         \<and> cell row ''altmans_cheer'' = Some (SqlInt 4)
         \<and> cell row ''altmans_confidence'' = Some (SqlInt 5)
         \<and> cell row ''altmans_summary'' = Some (SqlInt 15))"
proof -
  have small: "int64 1" "int64 2" "int64 3" "int64 4" "int64 5" "int64 15"
    by (simp_all add: int64_def)
  from insert_round_trip [OF triple_collapse insert_accepted_quiet [OF ready_world_accepted]
      small, of a_manager "''2024-05-01''" "''09:30''"]
  show ?thesis using small by (auto simp: ready_world_rows)
qed

theorem insert_round_trip_counterexample:
  "logged (fst (snd (insert_into_altman_table ready_world a_manager
        ''2024-05-01'' ''09:30'' 9223372036854775808 2 3 4 5 15))) = logged ready_world
   \<and> column_values (fst (snd (insert_into_altman_table ready_world a_manager
        ''2024-05-01'' ''09:30'' 9223372036854775808 2 3 4 5 15)))
        ''altman_table'' ''altmans_sleep''
       = Some [Some (SqlReal 9223372036854775808)]
   \<and> column_values (fst (snd (insert_into_altman_table ready_world a_manager
        ''2024-05-01'' ''09:30'' 9223372036854775808 2 3 4 5 15)))
        ''altman_table'' ''altmans_sleep''
       \<noteq> Some [Some (SqlInt 9223372036854775808)]"
proof -
  let ?w' = "fst (snd (insert_into_altman_table ready_world a_manager
        ''2024-05-01'' ''09:30'' 9223372036854775808 2 3 4 5 15))"
  from insert_accepted_row [OF ready_world_accepted,
      of a_manager "''2024-05-01''" "''09:30''" 9223372036854775808 2 3 4 5 15]
  obtain row where h: "select_all ?w' ''altman_table'' = Some [row]"
    "cell row ''altmans_sleep'' = Some (to_sql (VInt 9223372036854775808))"
    by (auto simp: ready_world_rows)
  have "to_sql (VInt 9223372036854775808) = SqlReal 9223372036854775808"
    by (simp add: int64_def uint64_def)
  with h have "column_values ?w' ''altman_table'' ''altmans_sleep''
      = Some [Some (SqlReal 9223372036854775808)]"
    by (simp add: column_values_def)
  with insert_accepted_quiet [OF ready_world_accepted] show ?thesis by simp
qed

section \<open>Creating the store\<close>

text \<open>
  Claim C4, as amended. In a fresh state, with no file at the target path and the path
  writable, \<open>initialize_database\<close> does not raise and leaves every other file alone.
  With a template at the source path the store file becomes identical to the template.
  Without one the store file is created as an empty database, which holds no
  \<open>altman_table\<close> yet; the table, with the expected columns and zero rows, is there
  once the \<open>DataManager\<close> has been constructed on that store.
\<close>

theorem initialize_database_fresh:
  assumes "\<not> path_exists w tgt" and "writable w tgt"
  shows "fst (initialize_database src tgt w) = None
       \<and> (path_exists w src \<longrightarrow>
            files (snd (initialize_database src tgt w)) tgt = files w src)
       \<and> (\<not> path_exists w src \<longrightarrow>
            files (snd (initialize_database src tgt w)) tgt = Some (SqliteFile Map.empty)
            \<and> store_table (snd (initialize_database src tgt w)) tgt ''altman_table'' = None
            \<and> store_table (fst (snd (DataManager_init tgt (snd (initialize_database src tgt w)))))
                 tgt ''altman_table'' = Some empty_altman_table)
       \<and> (\<forall>p. p \<noteq> tgt \<longrightarrow> files (snd (initialize_database src tgt w)) p = files w p)"
proof (cases "path_exists w src")
  case True
  from initialize_database_copy [OF assms(1) True assms(2)] True show ?thesis
    by simp
next
  case False
  let ?w1 = "w\<lparr>files := (files w)(tgt \<mapsto> SqliteFile Map.empty),
                default_connection := Some \<lparr>databaseName = tgt, isOpen = False\<rparr>\<rparr>"
  have 1: "initialize_database src tgt w = (None, ?w1)"
    by (rule initialize_database_create [OF assms(1) False assms(2)])
  have "files ?w1 tgt = Some (SqliteFile Map.empty)" "writable ?w1 tgt"
    using assms(2) by simp_all
  from DataManager_init_on_empty_store [OF this] 1 False show ?thesis
    by (simp add: store_table_def)
qed

theorem initialize_database_fresh_witness:
  "\<not> path_exists fresh_world home_db \<and> writable fresh_world home_db
   \<and> \<not> path_exists fresh_world app_db
   \<and> store_table (snd (initialize_database app_db home_db fresh_world)) home_db ''altman_table''
       = None
   \<and> store_table (fst (snd (DataManager_init home_db
              (snd (initialize_database app_db home_db fresh_world))))) home_db ''altman_table''
       = Some empty_altman_table
   \<and> \<not> path_exists template_world home_db \<and> writable template_world home_db
   \<and> path_exists template_world app_db
   \<and> files (snd (initialize_database app_db home_db template_world)) home_db
       = Some (OtherFile [83, 81, 76])"
  using initialize_database_fresh [OF fresh_world_facts(1,3), of app_db]
    initialize_database_fresh [OF template_world_facts(1,3), of app_db]
    fresh_world_facts template_world_facts
  by simp

theorem initialize_database_table_counterexample:
  "\<not> path_exists fresh_world home_db
   \<and> path_exists (snd (initialize_database app_db home_db fresh_world)) home_db
   \<and> store_table (snd (initialize_database app_db home_db fresh_world)) home_db ''altman_table''
       = None"
  using initialize_database_create [OF fresh_world_facts(1,2,3)]
  by (simp add: store_table_def path_exists_def fresh_world_def)

text \<open>
  Claim C5. \<open>initialize_database\<close> never raises; where a store file already exists
  at the target path it changes nothing at all; and a second call in succession leaves
  the files and the connection as the first call left them.
\<close>

theorem initialize_database_idempotent:
  "fst (initialize_database src tgt w) = None
   \<and> (path_exists w tgt \<longrightarrow> initialize_database src tgt w = (None, w))
   \<and> files (snd (initialize_database src tgt (snd (initialize_database src tgt w))))
       = files (snd (initialize_database src tgt w))
   \<and> default_connection (snd (initialize_database src tgt (snd (initialize_database src tgt w))))
       = default_connection (snd (initialize_database src tgt w))"
proof -
  let ?w1 = "snd (initialize_database src tgt w)"
  have twice: "files (snd (initialize_database src tgt ?w1)) = files ?w1
     \<and> default_connection (snd (initialize_database src tgt ?w1)) = default_connection ?w1"
  proof (cases "path_exists w tgt")
    case True
    then show ?thesis by (simp add: initialize_database_existing)
  next
    case absent: False
    show ?thesis
    proof (cases "writable w tgt")
      case True
      have "path_exists ?w1 tgt"
      proof (cases "path_exists w src")
        case True
        with absent \<open>writable w tgt\<close> show ?thesis
          by (auto simp: initialize_database_copy path_exists_def)
      next
        case False
        with absent \<open>writable w tgt\<close> show ?thesis
          by (simp add: initialize_database_create path_exists_def)
      qed
      then show ?thesis by (simp add: initialize_database_existing)
    next
      case locked: False
      show ?thesis
      proof (cases "path_exists w src")
        case True
        with absent locked show ?thesis
          by (simp add: initialize_database_copy_fails)
      next
        case False
        let ?w' = "logger_error ''Error: Unable to create database''
                    (w\<lparr>default_connection := Some \<lparr>databaseName = tgt, isOpen = False\<rparr>\<rparr>)"
        have 1: "?w1 = ?w'"
          using absent locked False by (simp add: initialize_database_create_fails)
        have "\<not> path_exists ?w' tgt" "\<not> path_exists ?w' src" "\<not> writable ?w' tgt"
          using absent locked False by (simp_all add: path_exists_def)
        from initialize_database_create_fails [OF this] 1 show ?thesis
          by simp
      qed
    qed
  qed
  show ?thesis
    using twice by (simp add: initialize_database_returns initialize_database_existing)
qed

theorem initialize_database_idempotent_witness:
  "path_exists ready_world home_db
   \<and> initialize_database app_db home_db ready_world = (None, ready_world)"
  using initialize_database_idempotent [of app_db home_db ready_world] ready_world_exists
  by simp

section \<open>Errors are logged and suppressed\<close>

text \<open>
  Claim C6. Store creation, opening with schema creation, schema creation alone, insert
  and close return normally for every input and every state. Each of the five kinds of
  failure leaves an ERROR entry in the log: a store that cannot be created, a connection
  that cannot be opened, a CREATE the engine rejects, an INSERT the engine rejects, a
  mismatch between bind values and placeholders, and a failure while closing.
\<close>

theorem persistence_errors_suppressed:
  "fst (initialize_database src tgt w) = None
   \<and> fst (DataManager_init name w) = None
   \<and> fst (setup_altman_table w self) = None
   \<and> fst (insert_into_altman_table w self date time sleep speech activity cheer confidence
            summary) = None
   \<and> fst (insert_with w self vs) = None
   \<and> fst (close_database w self) = None
   \<and> (\<not> path_exists w tgt \<and> \<not> writable w tgt \<longrightarrow>
        logged (snd (initialize_database src tgt w))
          = logged w @ [(ERROR, ''Error: Unable to create database'')])
   \<and> (\<not> path_exists w name \<and> \<not> writable w name \<longrightarrow>
        logged (fst (snd (DataManager_init name w)))
          = logged w @ [(ERROR, ''Error: Unable to open database''), (INFO, ''DB INITIALIZING''),
                        (ERROR, ''Error creating table: altman_table'')])
   \<and> (\<not> create_accepted w \<longrightarrow>
        logged (fst (snd (setup_altman_table w self)))
          = logged w @ [(ERROR, ''Error creating table: altman_table'')])
   \<and> (\<not> insert_accepted w \<longrightarrow>
        (\<exists>err. logged (fst (snd (insert_into_altman_table w self date time sleep speech activity
                   cheer confidence summary)))
          = logged w @ [(ERROR, ''Error inserting data: altman_table - '' @ err)]))
   \<and> (length vs \<noteq> count_list sql_insert (CHR ''?'') \<longrightarrow>
        logged (fst (snd (insert_with w self vs)))
          = logged w @ [(ERROR, ''ValueError altman_table: Mismatch: altman_table'')])
   \<and> (db self = None \<longrightarrow>
        logged (snd (close_database w self))
          = logged w @ [(INFO, ''if database is open''), (ERROR, ''Error closing database: '')])"
proof -
  let ?vs = "[VStr date, VStr time, VInt sleep, VInt speech, VInt activity, VInt cheer,
              VInt confidence, VInt summary]"
  have ins: "insert_into_altman_table w self date time sleep speech activity cheer confidence
            summary = insert_with w self ?vs"
    by (simp add: insert_into_altman_table_def)
  have a: "logged (snd (initialize_database src tgt w))
          = logged w @ [(ERROR, ''Error: Unable to create database'')]"
    if "\<not> path_exists w tgt \<and> \<not> writable w tgt"
    using that
    by (cases "path_exists w src")
       (simp_all add: initialize_database_copy_fails initialize_database_create_fails)
  have b: "\<exists>err. logged (fst (snd (insert_with w self ?vs)))
          = logged w @ [(ERROR, ''Error inserting data: altman_table - '' @ err)]"
    if "\<not> insert_accepted w"
  proof -
    have "length ?vs = 8" by simp
    from insert_with_rejected [OF this that, of self] show ?thesis by auto
  qed
  have c: "logged (fst (snd (insert_with w self vs)))
          = logged w @ [(ERROR, ''ValueError altman_table: Mismatch: altman_table'')]"
    if "length vs \<noteq> count_list sql_insert (CHR ''?'')"
  proof -
    from that have "length vs \<noteq> 8" by (simp add: count_placeholders)
    from insert_with_mismatch [OF this, of w self] show ?thesis by auto
  qed
  show ?thesis
    using a b c
    by (simp add: initialize_database_returns DataManager_init_returns
        setup_altman_table_returns insert_with_returns close_database_returns ins
        DataManager_init_unopened setup_altman_table_rejected close_database_no_db)
qed

theorem persistence_errors_suppressed_witness:
  "\<not> path_exists locked_world home_db \<and> \<not> writable locked_world home_db
   \<and> \<not> create_accepted locked_world \<and> \<not> insert_accepted locked_world
   \<and> length ([] :: variant list) \<noteq> count_list sql_insert (CHR ''?'')
   \<and> db bare_object = None
   \<and> logged (snd (initialize_database app_db home_db locked_world))
       = [(ERROR, ''Error: Unable to create database'')]
   \<and> logged (fst (snd (DataManager_init home_db locked_world)))
       = [(ERROR, ''Error: Unable to open database''), (INFO, ''DB INITIALIZING''),
          (ERROR, ''Error creating table: altman_table'')]
   \<and> logged (fst (snd (setup_altman_table locked_world bare_object)))
       = [(ERROR, ''Error creating table: altman_table'')]
   \<and> (\<exists>err. logged (fst (snd (insert_into_altman_table locked_world bare_object
                 ''2024-05-01'' ''09:30'' 1 2 3 4 5 15)))
       = [(ERROR, ''Error inserting data: altman_table - '' @ err)])
   \<and> logged (fst (snd (insert_with locked_world bare_object [])))
       = [(ERROR, ''ValueError altman_table: Mismatch: altman_table'')]
   \<and> logged (snd (close_database locked_world bare_object))
       = [(INFO, ''if database is open''), (ERROR, ''Error closing database: '')]"
  using persistence_errors_suppressed [of app_db home_db locked_world home_db bare_object
      "''2024-05-01''" "''09:30''" 1 2 3 4 5 15 "[]"]
    locked_world_facts locked_world_rejected
  by (simp add: count_placeholders bare_object_def)

text \<open>
  Claim C7. The SQL text holds eight placeholders and the function binds eight values,
  so the \<open>try\<close> block of \<open>insert_into_altman_table\<close> never raises the ValueError.
  The comparison comes after the binding: whenever the block does raise it, for a list
  of another length, every value of the list is already bound to the query and nothing
  has been executed.
\<close>

theorem mismatch_check_unreachable:
  "count_list sql_insert (CHR ''?'') = 8
   \<and> fst (insert_try w self [VStr date, VStr time, VInt sleep, VInt speech, VInt activity,
                             VInt cheer, VInt confidence, VInt summary]) = None
   \<and> boundValues (query (snd (snd (insert_try w self vs)))) = vs
   \<and> (fst (insert_try w self vs) = Some ValueError \<longrightarrow>
        length vs \<noteq> 8 \<and> fst (snd (insert_try w self vs)) = w
        \<and> query (snd (snd (insert_try w self vs)))
            = foldl query_addBindValue (snd (query_prepare w (query self) sql_insert)) vs)"
proof -
  let ?vs = "[VStr date, VStr time, VInt sleep, VInt speech, VInt activity, VInt cheer,
              VInt confidence, VInt summary]"
  have a: "fst (insert_try w self ?vs) = None"
    by (simp add: insert_try_def count_placeholders Let_def split: prod.splits)
  have b: "boundValues (query (snd (snd (insert_try w self vs)))) = vs"
    by (auto simp: insert_try_def Let_def query_exec_def boundValues_foldl query_prepare_def
        split: prod.splits option.splits sum.splits)
  have c: "length vs \<noteq> 8 \<and> fst (snd (insert_try w self vs)) = w
        \<and> query (snd (snd (insert_try w self vs)))
            = foldl query_addBindValue (snd (query_prepare w (query self) sql_insert)) vs"
    if "fst (insert_try w self vs) = Some ValueError"
  proof (cases "length vs = 8")
    case True
    with that show ?thesis
      by (simp add: insert_try_def count_placeholders Let_def split: prod.splits)
  next
    case False
    then show ?thesis by (simp add: insert_try_mismatch)
  qed
  from a b c show ?thesis by (simp add: count_placeholders)
qed

theorem mismatch_check_unreachable_witness:
  "fst (insert_try ready_world a_manager [VInt 1]) = Some ValueError
   \<and> length [VInt 1] \<noteq> (8::nat)
   \<and> fst (snd (insert_try ready_world a_manager [VInt 1])) = ready_world
   \<and> boundValues (query (snd (snd (insert_try ready_world a_manager [VInt 1])))) = [VInt 1]"
proof -
  have "length [VInt 1] \<noteq> (8::nat)" by simp
  from insert_try_mismatch [OF this, of ready_world a_manager]
  have raised: "fst (insert_try ready_world a_manager [VInt 1]) = Some ValueError" by simp
  note t = mismatch_check_unreachable [of ready_world a_manager "[]" "[]" 0 0 0 0 0 0 "[VInt 1]"]
  from t have bound:
    "boundValues (query (snd (snd (insert_try ready_world a_manager [VInt 1])))) = [VInt 1]"
    by blast
  from t raised have "length [VInt 1] \<noteq> (8::nat)
      \<and> fst (snd (insert_try ready_world a_manager [VInt 1])) = ready_world"
    by blast
  with raised bound show ?thesis by blast
qed

section \<open>Closing the connection\<close>

text \<open>
  Claim C8. \<open>close_database\<close> never raises and never touches a file. It leaves the
  connection closed when \<open>self\<close> has a \<open>db\<close>, and leaves a connection that is
  not open as it is. A second call does not raise and changes neither the files nor the
  connection. An error while closing (here: \<open>self\<close> without \<open>db\<close>) is logged.
\<close>

theorem close_database_idempotent:
  "fst (close_database w self) = None
   \<and> files (snd (close_database w self)) = files w
   \<and> (db self \<noteq> None \<longrightarrow> \<not> db_isOpen (snd (close_database w self)))
   \<and> (\<not> db_isOpen w \<longrightarrow>
        default_connection (snd (close_database w self)) = default_connection w)
   \<and> fst (close_database (snd (close_database w self)) self) = None
   \<and> files (snd (close_database (snd (close_database w self)) self))
       = files (snd (close_database w self))
   \<and> default_connection (snd (close_database (snd (close_database w self)) self))
       = default_connection (snd (close_database w self))
   \<and> (db self = None \<longrightarrow>
        logged (snd (close_database w self))
          = logged w @ [(INFO, ''if database is open''), (ERROR, ''Error closing database: '')]
        \<and> default_connection (snd (close_database w self)) = default_connection w)"
proof -
  let ?w1 = "snd (close_database w self)"
  have second: "default_connection (snd (close_database ?w1 self)) = default_connection ?w1"
  proof (cases "db self")
    case None
    then show ?thesis by (simp add: close_database_effect)
  next
    case (Some h)
    then have "\<not> db_isOpen ?w1" by (simp add: close_database_closes)
    then show ?thesis by (simp add: close_database_effect)
  qed
  show ?thesis
    using second
    by (simp add: close_database_returns close_database_effect close_database_closes
        close_database_no_db)
qed

theorem close_database_idempotent_witness:
  "db a_manager \<noteq> None \<and> db_isOpen ready_world
   \<and> \<not> db_isOpen (snd (close_database ready_world a_manager))
   \<and> files (snd (close_database ready_world a_manager)) = files ready_world
   \<and> \<not> db_isOpen fresh_world
   \<and> default_connection (snd (close_database fresh_world a_manager))
       = default_connection fresh_world
   \<and> db bare_object = None
   \<and> logged (snd (close_database ready_world bare_object))
       = [(INFO, ''if database is open''), (ERROR, ''Error closing database: '')]
   \<and> default_connection (snd (close_database ready_world bare_object))
       = default_connection ready_world"
  using close_database_idempotent [of ready_world a_manager]
    close_database_idempotent [of fresh_world a_manager]
    close_database_idempotent [of ready_world bare_object]
    ready_world_open
  by (simp add: a_manager_def bare_object_def ready_world_def)

section \<open>The widgets and the connection while the window lives\<close>

text \<open>
  Claim C9. From the construction of the window onward, after any sequence of events,
  each of the five sliders has the range 0 to 5 and a value inside it, the summary
  control is disabled, every slider's \<open>valueChanged\<close> is connected to the
  recomputation, and the value the summary control holds is the sum of the positive
  slider values, so whatever the commit action reads there is not stale. The range of
  the summary control comes from the generated form and must admit 0 to 25.
\<close>

theorem widget_invariants:
  assumes "MainWindow_init tgt w form stored geo st = (r0, w0, mw0)"
      and "run w0 mw0 es = (r, w', mw')"
      and "minimum (altmans_summary form) \<le> 0" and "25 \<le> maximum (altmans_summary form)"
  shows "list_all (\<lambda>s. minimum (slider_of s mw') = 0 \<and> maximum (slider_of s mw') = 5
                      \<and> 0 \<le> wvalue (slider_of s mw') \<and> wvalue (slider_of s mw') \<le> 5)
           all_sliders
       \<and> \<not> enabled (altmans_summary mw')
       \<and> set all_sliders \<subseteq> connected mw'
       \<and> wvalue (altmans_summary mw') = sumabitch mw'
       \<and> sumabitch mw' =
           positive_part (wvalue (altmans_sleep mw')) + positive_part (wvalue (altmans_speech mw'))
           + positive_part (wvalue (altmans_activity mw'))
           + positive_part (wvalue (altmans_cheer mw'))
           + positive_part (wvalue (altmans_confidence mw'))"
proof -
  from MainWindow_init_form_ok [OF assms(3,4), of tgt w stored geo st] assms(1)
  have "form_ok mw0" by simp
  from run_form_ok [OF this, of w0 es] assms(2) have ok: "form_ok mw'" by simp
  then show ?thesis
    by (simp add: form_ok_def slider_ok_def in_scale_def all_sliders_def
        sumabitch_positive_parts)
qed

theorem widget_invariants_witness:
  "minimum (altmans_summary wild_form) \<le> 0 \<and> 25 \<le> maximum (altmans_summary wild_form)
   \<and> \<not> enabled (altmans_summary (snd (snd (run
          (fst (snd (MainWindow_init home_db fresh_world wild_form Map.empty [] [])))
          (snd (snd (MainWindow_init home_db fresh_world wild_form Map.empty [] [])))
          a_session))))
   \<and> wvalue (altmans_summary (snd (snd (run
          (fst (snd (MainWindow_init home_db fresh_world wild_form Map.empty [] [])))
          (snd (snd (MainWindow_init home_db fresh_world wild_form Map.empty [] [])))
          a_session))))
       = sumabitch (snd (snd (run
          (fst (snd (MainWindow_init home_db fresh_world wild_form Map.empty [] [])))
          (snd (snd (MainWindow_init home_db fresh_world wild_form Map.empty [] [])))
          a_session)))"
  using widget_invariants [OF triple_collapse triple_collapse wild_form_range,
      of home_db fresh_world Map.empty "[]" "[]" a_session]
    wild_form_range
  by simp

text \<open>
  Claim C10. The connection the \<open>DataManager\<close> opens at construction is never
  closed: no event of the window, the close event included, changes the default
  connection, so a connection that was opened is still open after any sequence of events.
  \<open>close_database\<close> is a function of the module and not among the names a
  \<open>DataManager\<close> answers to.
\<close>

theorem connection_never_closed:
  assumes "MainWindow_init tgt w form stored geo st = (r0, w0, mw0)"
      and "run w0 mw0 es = (r, w', mw')"
  shows "r0 = None \<and> r = None
       \<and> default_connection w' = default_connection w0
       \<and> db_isOpen w' = db_isOpen w0
       \<and> (path_exists w tgt \<or> writable w tgt \<longrightarrow> db_isOpen w0 \<and> db_isOpen w')
       \<and> ''close_database'' \<notin> set DataManager_attributes
       \<and> ''close_database'' \<in> set module_functions"
proof -
  from MainWindow_init_world [of tgt w form stored geo st] assms(1)
  have init: "r0 = None" "w0 = fst (snd (DataManager_init tgt w))" by simp_all
  from run_connection [of w0 mw0 es] assms(2)
  have rn: "r = None" "default_connection w' = default_connection w0" by simp_all
  then have same: "db_isOpen w' = db_isOpen w0" by (simp add: db_isOpen_def)
  have "db_isOpen w0" if "path_exists w tgt \<or> writable w tgt"
    using DataManager_init_opens [OF that] init by simp
  with init rn same show ?thesis
    by (simp add: DataManager_attributes_def module_functions_def)
qed

theorem connection_never_closed_witness:
  "(path_exists fresh_world home_db \<or> writable fresh_world home_db)
   \<and> CloseEvent \<in> set a_session
   \<and> fst (run (fst (snd (MainWindow_init home_db fresh_world wild_form Map.empty [] [])))
             (snd (snd (MainWindow_init home_db fresh_world wild_form Map.empty [] [])))
             a_session) = None
   \<and> db_isOpen (fst (snd (run
          (fst (snd (MainWindow_init home_db fresh_world wild_form Map.empty [] [])))
          (snd (snd (MainWindow_init home_db fresh_world wild_form Map.empty [] [])))
          a_session)))"
  using connection_never_closed [OF triple_collapse triple_collapse,
      of home_db fresh_world wild_form Map.empty "[]" "[]" a_session]
    fresh_world_facts(3)
  by (simp add: a_session_def)

end
